theory Spec2Isabelle
  imports Complex_Main
begin

section \<open>Cooldown timer store: the model\<close>

text \<open>
  A shallow embedding of \<^verbatim>\<open>store/useTimerStore.ts\<close> (the persisted store), of the
  simplified store variant, of the countdown computation of \<^verbatim>\<open>hooks/useCountdown.ts\<close>
  and of the press handlers of the champion card.

  Conventions of the model:
  \<^item> a JavaScript \<^verbatim>\<open>number\<close> is a value of the type \<open>number\<close> below: a double, an
    infinity or \<^verbatim>\<open>NaN\<close>, with arithmetic that rounds to the nearest double;
  \<^item> \<^verbatim>\<open>number | null\<close> is \<open>number option\<close>, \<open>None\<close> being \<^verbatim>\<open>null\<close>;
  \<^item> a slot index is an integer (callers build it from a fixed integer range);
  \<^item> \<^verbatim>\<open>Date.now()\<close> is a parameter \<open>now\<close> of every operation that reads the clock, a
    finite number of milliseconds;
  \<^item> an operation takes the store state and returns the new one, or an outcome of
    type \<open>error\<close> where the source leaves the typed data model.
\<close>

subsection \<open>JavaScript numbers\<close>

text \<open>
  The finite values are real numbers; the doubles among them are those that rounding
  leaves as they are (\<open>is_double\<close>). The two zeros of a double are the one value
  \<open>Finite 0\<close>: they compare equal and are both falsy, and the only divisor of the
  program that can be zero is a sum \<open>1 + x\<close>, which is never the negative zero.
\<close>

datatype number = Finite real | PosInf | NegInf | NaN

text \<open>The nearest integer, the even one of two that are equally near.\<close>

definition roundEven :: "real \<Rightarrow> int" where
  "roundEven q =
     (let f = \<lfloor>q\<rfloor>; d = q - of_int f
      in if d < 1 / 2 then f
         else if 1 / 2 < d then f + 1
         else if even f then f else f + 1)"

text \<open>
  The binary exponent of a double: for \<open>1 \<le> x\<close> the number of halvings that bring \<open>x\<close>
  below 2, for \<open>x < 1\<close> the number of doublings that bring it to 1, at most 1024 and
  1022 of them (the range of the exponent; below it are the subnormal numbers).
\<close>

fun halvings :: "nat \<Rightarrow> real \<Rightarrow> int" where
  "halvings 0 x = 0"
| "halvings (Suc n) x = (if x < 2 then 0 else halvings n (x / 2) + 1)"

fun doublings :: "nat \<Rightarrow> real \<Rightarrow> int" where
  "doublings 0 x = 0"
| "doublings (Suc n) x = (if 1 \<le> x then 0 else doublings n (2 * x) + 1)"

definition exponent :: "real \<Rightarrow> int" where
  "exponent x =
     (if x = 0 then - 1022
      else if 1 \<le> \<bar>x\<bar> then halvings 1024 \<bar>x\<bar>
      else - doublings 1022 \<bar>x\<bar>)"

text \<open>The distance of two neighbouring doubles around \<open>x\<close>: 52 bits below its exponent.\<close>

definition ulp :: "real \<Rightarrow> real" where
  "ulp x = 2 powi (exponent x - 52)"

text \<open>Rounding to the nearest multiple of \<open>ulp x\<close>, ties to the even one.\<close>

definition nearest :: "real \<Rightarrow> real" where
  "nearest x = of_int (roundEven (x / ulp x)) * ulp x"

text \<open>
  The double nearest to a real number: IEEE 754 rounding to nearest, ties to even, with
  overflow to the infinities.
\<close>

definition round64 :: "real \<Rightarrow> number" where
  "round64 x =
     (let r = nearest x
      in if 2 ^ 1024 \<le> \<bar>r\<bar> then (if 0 < x then PosInf else NegInf) else Finite r)"

definition is_double :: "real \<Rightarrow> bool" where
  "is_double x \<longleftrightarrow> round64 x = Finite x"

text \<open>The operators \<^verbatim>\<open>-a\<close>, \<^verbatim>\<open>a + b\<close>, \<^verbatim>\<open>a - b\<close>, \<^verbatim>\<open>a * b\<close>, \<^verbatim>\<open>a / b\<close>.\<close>

fun js_neg :: "number \<Rightarrow> number" where
  "js_neg (Finite x) = Finite (- x)"
| "js_neg PosInf = NegInf"
| "js_neg NegInf = PosInf"
| "js_neg NaN = NaN"

fun js_add :: "number \<Rightarrow> number \<Rightarrow> number" where
  "js_add NaN b = NaN"
| "js_add a NaN = NaN"
| "js_add (Finite x) (Finite y) = round64 (x + y)"
| "js_add PosInf NegInf = NaN"
| "js_add NegInf PosInf = NaN"
| "js_add PosInf b = PosInf"
| "js_add a PosInf = PosInf"
| "js_add NegInf b = NegInf"
| "js_add a NegInf = NegInf"

definition js_sub :: "number \<Rightarrow> number \<Rightarrow> number" where
  "js_sub a b = js_add a (js_neg b)"

fun js_mul :: "number \<Rightarrow> number \<Rightarrow> number" where
  "js_mul NaN b = NaN"
| "js_mul a NaN = NaN"
| "js_mul (Finite x) (Finite y) = round64 (x * y)"
| "js_mul (Finite x) PosInf = (if x = 0 then NaN else if 0 < x then PosInf else NegInf)"
| "js_mul (Finite x) NegInf = (if x = 0 then NaN else if 0 < x then NegInf else PosInf)"
| "js_mul PosInf (Finite y) = (if y = 0 then NaN else if 0 < y then PosInf else NegInf)"
| "js_mul NegInf (Finite y) = (if y = 0 then NaN else if 0 < y then NegInf else PosInf)"
| "js_mul PosInf PosInf = PosInf"
| "js_mul PosInf NegInf = NegInf"
| "js_mul NegInf PosInf = NegInf"
| "js_mul NegInf NegInf = PosInf"

fun js_div :: "number \<Rightarrow> number \<Rightarrow> number" where
  "js_div NaN b = NaN"
| "js_div a NaN = NaN"
| "js_div (Finite x) (Finite y) =
     (if y = 0 then (if x = 0 then NaN else if 0 < x then PosInf else NegInf)
      else round64 (x / y))"
| "js_div (Finite x) PosInf = Finite 0"
| "js_div (Finite x) NegInf = Finite 0"
| "js_div PosInf (Finite y) = (if 0 \<le> y then PosInf else NegInf)"
| "js_div NegInf (Finite y) = (if 0 \<le> y then NegInf else PosInf)"
| "js_div PosInf PosInf = NaN"
| "js_div PosInf NegInf = NaN"
| "js_div NegInf PosInf = NaN"
| "js_div NegInf NegInf = NaN"

text \<open>The comparisons \<^verbatim>\<open>a < b\<close>, \<^verbatim>\<open>a <= b\<close>, \<^verbatim>\<open>a > b\<close>: false when an operand is \<^verbatim>\<open>NaN\<close>.\<close>

fun js_lt :: "number \<Rightarrow> number \<Rightarrow> bool" where
  "js_lt NaN b = False"
| "js_lt a NaN = False"
| "js_lt (Finite x) (Finite y) = (x < y)"
| "js_lt a NegInf = False"
| "js_lt PosInf b = False"
| "js_lt NegInf b = True"
| "js_lt a PosInf = True"

fun js_le :: "number \<Rightarrow> number \<Rightarrow> bool" where
  "js_le NaN b = False"
| "js_le a NaN = False"
| "js_le (Finite x) (Finite y) = (x \<le> y)"
| "js_le NegInf b = True"
| "js_le a PosInf = True"
| "js_le a NegInf = False"
| "js_le PosInf b = False"

definition js_gt :: "number \<Rightarrow> number \<Rightarrow> bool" where
  "js_gt a b = js_lt b a"

text \<open>\<^verbatim>\<open>Math.max(a, b)\<close> and \<^verbatim>\<open>Math.ceil(a)\<close>.\<close>

fun js_max :: "number \<Rightarrow> number \<Rightarrow> number" where
  "js_max NaN b = NaN"
| "js_max a NaN = NaN"
| "js_max a b = (if js_lt a b then b else a)"

fun js_ceil :: "number \<Rightarrow> number" where
  "js_ceil (Finite x) = Finite (of_int \<lceil>x\<rceil>)"
| "js_ceil a = a"

text \<open>A number in a condition: \<open>0\<close> and \<^verbatim>\<open>NaN\<close> are falsy.\<close>

definition truthy :: "number \<Rightarrow> bool" where
  "truthy a \<longleftrightarrow> a \<noteq> Finite 0 \<and> a \<noteq> NaN"

subsection \<open>Outcomes outside the typed model\<close>

datatype error =
    TypeError     \<comment> \<open>a property is read from \<^verbatim>\<open>undefined\<close>\<close>
  | PartialSlot   \<comment> \<open>\<^verbatim>\<open>{...undefined, k: v}\<close>: the slot written lacks fields\<close>
  | SparseArray   \<comment> \<open>a write beyond the end of the array leaves holes\<close>

subsection \<open>Types\<close>

datatype ChampionLevel = L1 | L6 | L11 | L16

definition LEVEL_CYCLE :: "ChampionLevel list" where
  "LEVEL_CYCLE = [L1, L6, L11, L16]"

fun ultCooldownIndex :: "ChampionLevel \<Rightarrow> nat option" where
  "ultCooldownIndex L1 = None"
| "ultCooldownIndex L6 = Some 0"
| "ultCooldownIndex L11 = Some 1"
| "ultCooldownIndex L16 = Some 2"

text \<open>The field \<^verbatim>\<open>id\<close> is named \<open>id_champ\<close>: \<open>id\<close> is the identity function of HOL.\<close>

record EnemyChampion =
  id_champ :: string
  name :: string
  ultBaseCooldowns :: "number \<times> number \<times> number"
  activeUltCooldown :: "number option"
  currentLevel :: ChampionLevel
  abilityHaste :: number
  ionianBoots :: bool
  cosmicInsight :: bool
  summonerHaste :: number
  spell1Id :: string
  spell2Id :: string
  spell1BaseCooldown :: number
  spell2BaseCooldown :: number
  ultEndTime :: "number option"
  spell1EndTime :: "number option"
  spell2EndTime :: "number option"

text \<open>\<^verbatim>\<open>Partial<EnemyChampion>\<close>: every field may be absent (\<open>None\<close>).\<close>

record EnemyChampionPartial =
  p_id :: "string option"
  p_name :: "string option"
  p_ultBaseCooldowns :: "(number \<times> number \<times> number) option"
  p_activeUltCooldown :: "number option option"
  p_currentLevel :: "ChampionLevel option"
  p_abilityHaste :: "number option"
  p_ionianBoots :: "bool option"
  p_cosmicInsight :: "bool option"
  p_summonerHaste :: "number option"
  p_spell1Id :: "string option"
  p_spell2Id :: "string option"
  p_spell1BaseCooldown :: "number option"
  p_spell2BaseCooldown :: "number option"
  p_ultEndTime :: "number option option"
  p_spell1EndTime :: "number option option"
  p_spell2EndTime :: "number option option"

text \<open>The argument of \<^verbatim>\<open>setChampionData\<close>: a champion-detail response.\<close>

record SpellDetail =
  cooldown :: "number list"

record ChampionDetail =
  d_id :: string
  d_name :: string
  spells :: "SpellDetail list"

text \<open>The parameter \<^verbatim>\<open>spellSlot: 1 | 2\<close>.\<close>

datatype spellSlot = Slot1 | Slot2

text \<open>The persisted part of \<^verbatim>\<open>TimerStoreState\<close>; its other members are the operations.\<close>

record TimerStoreState =
  enemies :: "EnemyChampion list"

subsection \<open>Arrays\<close>

text \<open>
  \<^verbatim>\<open>xs[i]\<close> read: \<open>None\<close> is \<^verbatim>\<open>undefined\<close>.
\<close>

definition slotAt :: "'a list \<Rightarrow> nat \<Rightarrow> 'a option" where
  "slotAt xs i = (if i < length xs then Some (xs ! i) else None)"

text \<open>
  \<^verbatim>\<open>xs[i] = v\<close> on the copy \<^verbatim>\<open>[...xs]\<close>: JavaScript overwrites inside the array, appends at
  its end and leaves holes beyond it.
\<close>

definition assign :: "'a list \<Rightarrow> nat \<Rightarrow> 'a \<Rightarrow> error + 'a list" where
  "assign xs i v =
     (if i < length xs then Inr (xs[i := v])
      else if i = length xs then Inr (xs @ [v])
      else Inl SparseArray)"

text \<open>
  \<^verbatim>\<open>xs[i] = f({ ...xs[i] })\<close>: the spread of an \<^verbatim>\<open>undefined\<close> slot has no fields.
\<close>

definition updateSlot :: "nat \<Rightarrow> ('a \<Rightarrow> 'a) \<Rightarrow> 'a list \<Rightarrow> error + 'a list" where
  "updateSlot i f xs =
     (case slotAt xs i of
        None \<Rightarrow> Inl PartialSlot
      | Some c \<Rightarrow> assign xs i (f c))"

text \<open>\<^verbatim>\<open>xs.indexOf(x)\<close>: the first position of \<open>x\<close>, or \<open>-1\<close>.\<close>

fun indexOf :: "'a list \<Rightarrow> 'a \<Rightarrow> int" where
  "indexOf [] x = - 1"
| "indexOf (y # ys) x =
     (if y = x then 0
      else (let r = indexOf ys x in if r < 0 then - 1 else r + 1))"

text \<open>\<^verbatim>\<open>t[k]\<close> on a triple; \<open>None\<close> is \<^verbatim>\<open>undefined\<close>.\<close>

fun tripleAt :: "number \<times> number \<times> number \<Rightarrow> nat \<Rightarrow> number option" where
  "tripleAt (a, b, c) k =
     (if k = 0 then Some a else if k = 1 then Some b else if k = 2 then Some c else None)"

subsection \<open>Helpers\<close>

definition createEmptyChampion :: EnemyChampion where
  "createEmptyChampion =
     \<lparr> id_champ = '''',
       name = '''',
       ultBaseCooldowns = (Finite 0, Finite 0, Finite 0),
       activeUltCooldown = None,
       currentLevel = L1,
       abilityHaste = Finite 0,
       ionianBoots = False,
       cosmicInsight = False,
       summonerHaste = Finite 0,
       spell1Id = ''SummonerFlash'',
       spell2Id = ''SummonerFlash'',
       spell1BaseCooldown = Finite 300,
       spell2BaseCooldown = Finite 300,
       ultEndTime = None,
       spell1EndTime = None,
       spell2EndTime = None \<rparr>"

definition deriveActiveUltCooldown ::
    "ChampionLevel \<Rightarrow> number \<times> number \<times> number \<Rightarrow> number option" where
  "deriveActiveUltCooldown level cds =
     (case ultCooldownIndex level of
        Some idx \<Rightarrow> tripleAt cds idx
      | None \<Rightarrow> None)"

definition deriveSummonerHaste :: "bool \<Rightarrow> bool \<Rightarrow> number" where
  "deriveSummonerHaste ionian cosmic =
     js_add (if ionian then Finite 12 else Finite 0) (if cosmic then Finite 18 else Finite 0)"

definition validIndex :: "int \<Rightarrow> nat option" where
  "validIndex index = (if index < 0 \<or> index > 4 then None else Some (nat index))"

text \<open>\<^verbatim>\<open>set((state) => ({ enemies }))\<close>: the new array replaces the old one.\<close>

definition setEnemies ::
    "error + EnemyChampion list \<Rightarrow> TimerStoreState \<Rightarrow> error + TimerStoreState" where
  "setEnemies r st =
     (case r of
        Inl e \<Rightarrow> Inl e
      | Inr es \<Rightarrow> Inr (st\<lparr>enemies := es\<rparr>))"

subsection \<open>The store\<close>

definition initialState :: TimerStoreState where
  "initialState = \<lparr> enemies = map (\<lambda>_. createEmptyChampion) [0..<5] \<rparr>"

definition calculateCooldown :: "number \<Rightarrow> number \<Rightarrow> number" where
  "calculateCooldown base haste = js_div base (js_add (Finite 1) (js_div haste (Finite 100)))"

text \<open>\<^verbatim>\<open>x ?? d\<close>.\<close>

definition nullish :: "'a option \<Rightarrow> 'a \<Rightarrow> 'a" where
  "nullish x d = (case x of Some v \<Rightarrow> v | None \<Rightarrow> d)"

text \<open>\<^verbatim>\<open>{ ...champ, ...data }\<close>: a field present in \<open>data\<close> replaces the slot's.\<close>

definition mergePartial :: "EnemyChampion \<Rightarrow> EnemyChampionPartial \<Rightarrow> EnemyChampion" where
  "mergePartial c d =
     \<lparr> id_champ = nullish (p_id d) (id_champ c),
       name = nullish (p_name d) (name c),
       ultBaseCooldowns = nullish (p_ultBaseCooldowns d) (ultBaseCooldowns c),
       activeUltCooldown = nullish (p_activeUltCooldown d) (activeUltCooldown c),
       currentLevel = nullish (p_currentLevel d) (currentLevel c),
       abilityHaste = nullish (p_abilityHaste d) (abilityHaste c),
       ionianBoots = nullish (p_ionianBoots d) (ionianBoots c),
       cosmicInsight = nullish (p_cosmicInsight d) (cosmicInsight c),
       summonerHaste = nullish (p_summonerHaste d) (summonerHaste c),
       spell1Id = nullish (p_spell1Id d) (spell1Id c),
       spell2Id = nullish (p_spell2Id d) (spell2Id c),
       spell1BaseCooldown = nullish (p_spell1BaseCooldown d) (spell1BaseCooldown c),
       spell2BaseCooldown = nullish (p_spell2BaseCooldown d) (spell2BaseCooldown c),
       ultEndTime = nullish (p_ultEndTime d) (ultEndTime c),
       spell1EndTime = nullish (p_spell1EndTime d) (spell1EndTime c),
       spell2EndTime = nullish (p_spell2EndTime d) (spell2EndTime c) \<rparr>"

definition setChampion ::
    "int \<Rightarrow> EnemyChampionPartial \<Rightarrow> TimerStoreState \<Rightarrow> error + TimerStoreState" where
  "setChampion index data st =
     (case validIndex index of
        None \<Rightarrow> Inr st
      | Some i \<Rightarrow>
          setEnemies
            (updateSlot i
               (\<lambda>c. let updated = mergePartial c data
                    in updated\<lparr>activeUltCooldown :=
                         deriveActiveUltCooldown (currentLevel updated) (ultBaseCooldowns updated)\<rparr>)
               (enemies st))
            st)"

definition setChampionData ::
    "int \<Rightarrow> ChampionDetail \<Rightarrow> TimerStoreState \<Rightarrow> error + TimerStoreState" where
  "setChampionData index detail st =
     (case validIndex index of
        None \<Rightarrow> Inr st
      | Some i \<Rightarrow>
          (let ultSpell = slotAt (spells detail) 3;
               cd = (case ultSpell of
                       Some s \<Rightarrow> cooldown s
                     | None \<Rightarrow> [Finite 0, Finite 0, Finite 0]);
               cds = (nullish (slotAt cd 0) (Finite 0), nullish (slotAt cd 1) (Finite 0),
                      nullish (slotAt cd 2) (Finite 0))
           in setEnemies
                (assign (enemies st) i
                   (createEmptyChampion
                      \<lparr> id_champ := d_id detail,
                        name := d_name detail,
                        ultBaseCooldowns := cds,
                        currentLevel := L6,
                        activeUltCooldown := tripleAt cds 0 \<rparr>))
                st))"

definition clearChampion :: "int \<Rightarrow> TimerStoreState \<Rightarrow> error + TimerStoreState" where
  "clearChampion index st =
     (case validIndex index of
        None \<Rightarrow> Inr st
      | Some i \<Rightarrow> setEnemies (assign (enemies st) i createEmptyChampion) st)"

definition cycleLevel :: "int \<Rightarrow> TimerStoreState \<Rightarrow> error + TimerStoreState" where
  "cycleLevel index st =
     (case validIndex index of
        None \<Rightarrow> Inr st
      | Some i \<Rightarrow>
          setEnemies
            (updateSlot i
               (\<lambda>c. let currentIdx = indexOf LEVEL_CYCLE (currentLevel c);
                        nextIdx = (currentIdx + 1) mod int (length LEVEL_CYCLE);
                        champ = c\<lparr>currentLevel := LEVEL_CYCLE ! nat nextIdx\<rparr>
                    in champ\<lparr>activeUltCooldown :=
                         deriveActiveUltCooldown (currentLevel champ) (ultBaseCooldowns champ)\<rparr>)
               (enemies st))
            st)"

definition setAbilityHaste :: "int \<Rightarrow> number \<Rightarrow> TimerStoreState \<Rightarrow> error + TimerStoreState" where
  "setAbilityHaste index haste st =
     (case validIndex index of
        None \<Rightarrow> Inr st
      | Some i \<Rightarrow> setEnemies (updateSlot i (\<lambda>c. c\<lparr>abilityHaste := haste\<rparr>) (enemies st)) st)"

definition toggleIonianBoots :: "int \<Rightarrow> TimerStoreState \<Rightarrow> error + TimerStoreState" where
  "toggleIonianBoots index st =
     (case validIndex index of
        None \<Rightarrow> Inr st
      | Some i \<Rightarrow>
          setEnemies
            (updateSlot i
               (\<lambda>c. let champ = c\<lparr>ionianBoots := \<not> ionianBoots c\<rparr>
                    in champ\<lparr>summonerHaste :=
                         deriveSummonerHaste (ionianBoots champ) (cosmicInsight champ)\<rparr>)
               (enemies st))
            st)"

definition toggleCosmicInsight :: "int \<Rightarrow> TimerStoreState \<Rightarrow> error + TimerStoreState" where
  "toggleCosmicInsight index st =
     (case validIndex index of
        None \<Rightarrow> Inr st
      | Some i \<Rightarrow>
          setEnemies
            (updateSlot i
               (\<lambda>c. let champ = c\<lparr>cosmicInsight := \<not> cosmicInsight c\<rparr>
                    in champ\<lparr>summonerHaste :=
                         deriveSummonerHaste (ionianBoots champ) (cosmicInsight champ)\<rparr>)
               (enemies st))
            st)"

definition setSummonerSpell ::
    "int \<Rightarrow> spellSlot \<Rightarrow> string \<Rightarrow> number \<Rightarrow> TimerStoreState \<Rightarrow> error + TimerStoreState" where
  "setSummonerSpell index slot spellId cd st =
     (case validIndex index of
        None \<Rightarrow> Inr st
      | Some i \<Rightarrow>
          setEnemies
            (updateSlot i
               (\<lambda>c. if slot = Slot1
                    then c\<lparr>spell1Id := spellId, spell1BaseCooldown := cd, spell1EndTime := None\<rparr>
                    else c\<lparr>spell2Id := spellId, spell2BaseCooldown := cd, spell2EndTime := None\<rparr>)
               (enemies st))
            st)"

definition startUltTimer :: "real \<Rightarrow> int \<Rightarrow> TimerStoreState \<Rightarrow> error + TimerStoreState" where
  "startUltTimer now index st =
     (case validIndex index of
        None \<Rightarrow> Inr st
      | Some i \<Rightarrow>
          (case slotAt (enemies st) i of
             None \<Rightarrow> Inl TypeError
           | Some champ \<Rightarrow>
               (case activeUltCooldown champ of
                  None \<Rightarrow> Inr st
                | Some active \<Rightarrow>
                    (let effectiveCD = calculateCooldown active (abilityHaste champ)
                     in setEnemies
                          (updateSlot i
                             (\<lambda>c. c\<lparr>ultEndTime :=
                                    Some (js_add (Finite now) (js_mul effectiveCD (Finite 1000)))\<rparr>)
                             (enemies st))
                          st))))"

definition startSpellTimer ::
    "real \<Rightarrow> int \<Rightarrow> spellSlot \<Rightarrow> TimerStoreState \<Rightarrow> error + TimerStoreState" where
  "startSpellTimer now index slot st =
     (case validIndex index of
        None \<Rightarrow> Inr st
      | Some i \<Rightarrow>
          (case slotAt (enemies st) i of
             None \<Rightarrow> Inl TypeError
           | Some champ \<Rightarrow>
               (let baseCooldown =
                      (if slot = Slot1 then spell1BaseCooldown champ else spell2BaseCooldown champ)
                in if js_le baseCooldown (Finite 0) then Inr st
                   else
                     (let effectiveCD = calculateCooldown baseCooldown (summonerHaste champ);
                          endTime = js_add (Finite now) (js_mul effectiveCD (Finite 1000))
                      in setEnemies
                           (updateSlot i
                              (\<lambda>c. if slot = Slot1
                                   then c\<lparr>spell1EndTime := Some endTime\<rparr>
                                   else c\<lparr>spell2EndTime := Some endTime\<rparr>)
                              (enemies st))
                           st))))"

definition clearUltTimer :: "int \<Rightarrow> TimerStoreState \<Rightarrow> error + TimerStoreState" where
  "clearUltTimer index st =
     (case validIndex index of
        None \<Rightarrow> Inr st
      | Some i \<Rightarrow> setEnemies (updateSlot i (\<lambda>c. c\<lparr>ultEndTime := None\<rparr>) (enemies st)) st)"

definition clearSpellTimer ::
    "int \<Rightarrow> spellSlot \<Rightarrow> TimerStoreState \<Rightarrow> error + TimerStoreState" where
  "clearSpellTimer index slot st =
     (case validIndex index of
        None \<Rightarrow> Inr st
      | Some i \<Rightarrow>
          setEnemies
            (updateSlot i
               (\<lambda>c. if slot = Slot1 then c\<lparr>spell1EndTime := None\<rparr>
                    else c\<lparr>spell2EndTime := None\<rparr>)
               (enemies st))
            st)"

definition resetAll :: "TimerStoreState \<Rightarrow> error + TimerStoreState" where
  "resetAll st = Inr (st\<lparr>enemies := map (\<lambda>_. createEmptyChampion) [0..<5]\<rparr>)"

subsection \<open>Rehydration\<close>

text \<open>
  The test \<^verbatim>\<open>t && t > now ? t : null\<close> that \<^verbatim>\<open>onRehydrateStorage\<close> applies to each of the
  three end-times: \<^verbatim>\<open>null\<close>, \<open>0\<close> and \<^verbatim>\<open>NaN\<close> are falsy.
\<close>

definition keepFuture :: "real \<Rightarrow> number option \<Rightarrow> number option" where
  "keepFuture now t =
     (case t of
        None \<Rightarrow> None
      | Some v \<Rightarrow> if truthy v \<and> js_gt v (Finite now) then Some v else None)"

text \<open>
  The callback that \<^verbatim>\<open>onRehydrateStorage\<close> returns. In \<open>onRehydrateStorage now state err cur\<close>,
  \<open>state\<close> is the restored state the callback is given (\<open>None\<close> when there is none),
  \<open>err\<close> tells whether loading failed, \<open>cur\<close> is the store before the callback's
  \<^verbatim>\<open>setState\<close>; the result is the store afterwards.
\<close>

definition onRehydrateStorage ::
    "real \<Rightarrow> TimerStoreState option \<Rightarrow> bool \<Rightarrow> TimerStoreState \<Rightarrow> TimerStoreState" where
  "onRehydrateStorage now state err cur =
     (case state of
        None \<Rightarrow> cur
      | Some s \<Rightarrow>
          if err then cur
          else cur\<lparr>enemies :=
                 map (\<lambda>champ. champ\<lparr>ultEndTime := keepFuture now (ultEndTime champ),
                                    spell1EndTime := keepFuture now (spell1EndTime champ),
                                    spell2EndTime := keepFuture now (spell2EndTime champ)\<rparr>)
                     (enemies s)\<rparr>)"

text \<open>
  The successive states of the store at a load. The \<^verbatim>\<open>persist\<close> middleware of the store
  sets the restored state (the persisted \<^verbatim>\<open>enemies\<close> in place of the current ones) and
  then calls the callback with it: \<^verbatim>\<open>state\<close> is the state already restored, and the
  callback's \<^verbatim>\<open>useTimerStore.setState\<close> is a second update of the store.
\<close>

definition rehydrate ::
    "real \<Rightarrow> TimerStoreState \<Rightarrow> TimerStoreState \<Rightarrow> TimerStoreState list" where
  "rehydrate now persisted cur =
     (let restored = cur\<lparr>enemies := enemies persisted\<rparr>
      in [restored, onRehydrateStorage now (Some restored) False restored])"

subsection \<open>The countdown\<close>

text \<open>
  The value \<^verbatim>\<open>useCountdown(endTime)\<close> holds after a synchronisation at clock \<open>now\<close>:
  \<open>0\<close> for an inactive timer, \<^verbatim>\<open>Math.max(0, Math.ceil((endTime - Date.now()) / 1000))\<close>
  otherwise.
\<close>

definition useCountdown :: "number option \<Rightarrow> real \<Rightarrow> number" where
  "useCountdown endTime now =
     (case endTime of
        None \<Rightarrow> Finite 0
      | Some e \<Rightarrow>
          js_max (Finite 0) (js_ceil (js_div (js_sub e (Finite now)) (Finite 1000))))"

subsection \<open>The handlers of the champion card\<close>

text \<open>\<^verbatim>\<open>state.enemies[index]\<close> for any integer index.\<close>

definition enemyAt :: "TimerStoreState \<Rightarrow> int \<Rightarrow> EnemyChampion option" where
  "enemyAt st index = (if index < 0 then None else slotAt (enemies st) (nat index))"

text \<open>\<^verbatim>\<open>t !== null && t > Date.now()\<close>.\<close>

definition running :: "number option \<Rightarrow> real \<Rightarrow> bool" where
  "running t now = (case t of None \<Rightarrow> False | Some e \<Rightarrow> js_gt e (Finite now))"

text \<open>
  \<^verbatim>\<open>parseInt(text, 10)\<close> is the parameter \<open>parseInt\<close>: \<open>None\<close> is \<^verbatim>\<open>NaN\<close>.
\<close>

definition handleHasteChange ::
    "(string \<Rightarrow> int option) \<Rightarrow> int \<Rightarrow> string \<Rightarrow> TimerStoreState \<Rightarrow> error + TimerStoreState" where
  "handleHasteChange parseInt index text st =
     (let parsed = parseInt text
      in setAbilityHaste index
           (case parsed of
              None \<Rightarrow> Finite 0
            | Some n \<Rightarrow> js_max (Finite 0) (Finite (of_int n)))
           st)"

text \<open>
  The press handlers read the clock for their test (\<open>now\<close>); the store reads it again
  when it starts the timer (\<open>now'\<close>).
\<close>

definition handleUltPress ::
    "real \<Rightarrow> real \<Rightarrow> int \<Rightarrow> TimerStoreState \<Rightarrow> error + TimerStoreState" where
  "handleUltPress now now' index st =
     (case enemyAt st index of
        None \<Rightarrow> Inl TypeError
      | Some champ \<Rightarrow>
          if activeUltCooldown champ = None then Inr st
          else if running (ultEndTime champ) now then Inr st
          else startUltTimer now' index st)"

definition handleSpell1Press ::
    "real \<Rightarrow> real \<Rightarrow> int \<Rightarrow> TimerStoreState \<Rightarrow> error + TimerStoreState" where
  "handleSpell1Press now now' index st =
     (case enemyAt st index of
        None \<Rightarrow> Inl TypeError
      | Some champ \<Rightarrow>
          if running (spell1EndTime champ) now then Inr st
          else startSpellTimer now' index Slot1 st)"

definition handleSpell2Press ::
    "real \<Rightarrow> real \<Rightarrow> int \<Rightarrow> TimerStoreState \<Rightarrow> error + TimerStoreState" where
  "handleSpell2Press now now' index st =
     (case enemyAt st index of
        None \<Rightarrow> Inl TypeError
      | Some champ \<Rightarrow>
          if running (spell2EndTime champ) now then Inr st
          else startSpellTimer now' index Slot2 st)"

subsection \<open>The simplified store variant\<close>

text \<open>
  The second store of the repository has no summoner-spell fields: the base cooldown of
  a spell timer is an argument of \<^verbatim>\<open>startSpellTimer\<close>, and the ability haste applies to it.
\<close>

record EnemyChampion_simplified =
  s_id :: string
  s_name :: string
  s_ultBaseCooldowns :: "number \<times> number \<times> number"
  s_activeUltCooldown :: "number option"
  s_currentLevel :: ChampionLevel
  s_abilityHaste :: number
  s_ultEndTime :: "number option"
  s_spell1EndTime :: "number option"
  s_spell2EndTime :: "number option"

record TimerStoreState_simplified =
  s_enemies :: "EnemyChampion_simplified list"

definition createEmptyChampion_simplified :: EnemyChampion_simplified where
  "createEmptyChampion_simplified =
     \<lparr> s_id = '''',
       s_name = '''',
       s_ultBaseCooldowns = (Finite 0, Finite 0, Finite 0),
       s_activeUltCooldown = None,
       s_currentLevel = L1,
       s_abilityHaste = Finite 0,
       s_ultEndTime = None,
       s_spell1EndTime = None,
       s_spell2EndTime = None \<rparr>"

definition initialState_simplified :: TimerStoreState_simplified where
  "initialState_simplified =
     \<lparr> s_enemies = map (\<lambda>_. createEmptyChampion_simplified) [0..<5] \<rparr>"

definition startSpellTimer_simplified ::
    "real \<Rightarrow> int \<Rightarrow> spellSlot \<Rightarrow> number \<Rightarrow> TimerStoreState_simplified
      \<Rightarrow> error + TimerStoreState_simplified" where
  "startSpellTimer_simplified now index slot baseCooldown st =
     (case validIndex index of
        None \<Rightarrow> Inr st
      | Some i \<Rightarrow>
          (case slotAt (s_enemies st) i of
             None \<Rightarrow> Inl TypeError
           | Some champ \<Rightarrow>
               (let effectiveCD = calculateCooldown baseCooldown (s_abilityHaste champ);
                    endTime = js_add (Finite now) (js_mul effectiveCD (Finite 1000))
                in (case updateSlot i
                           (\<lambda>c. if slot = Slot1
                                then c\<lparr>s_spell1EndTime := Some endTime\<rparr>
                                else c\<lparr>s_spell2EndTime := Some endTime\<rparr>)
                           (s_enemies st) of
                      Inl e \<Rightarrow> Inl e
                    | Inr es \<Rightarrow> Inr (st\<lparr>s_enemies := es\<rparr>)))))"

subsection \<open>Sequences of operations\<close>

text \<open>The public mutation operations, with their arguments and the clock they read.\<close>

datatype action =
    SetChampion int EnemyChampionPartial
  | SetChampionData int ChampionDetail
  | ClearChampion int
  | CycleLevel int
  | SetAbilityHaste int number
  | ToggleIonianBoots int
  | ToggleCosmicInsight int
  | SetSummonerSpell int spellSlot string number
  | StartUltTimer real int
  | StartSpellTimer real int spellSlot
  | ClearUltTimer int
  | ClearSpellTimer int spellSlot
  | ResetAll

fun perform :: "action \<Rightarrow> TimerStoreState \<Rightarrow> error + TimerStoreState" where
  "perform (SetChampion i d) st = setChampion i d st"
| "perform (SetChampionData i d) st = setChampionData i d st"
| "perform (ClearChampion i) st = clearChampion i st"
| "perform (CycleLevel i) st = cycleLevel i st"
| "perform (SetAbilityHaste i h) st = setAbilityHaste i h st"
| "perform (ToggleIonianBoots i) st = toggleIonianBoots i st"
| "perform (ToggleCosmicInsight i) st = toggleCosmicInsight i st"
| "perform (SetSummonerSpell i s sid cd) st = setSummonerSpell i s sid cd st"
| "perform (StartUltTimer now i) st = startUltTimer now i st"
| "perform (StartSpellTimer now i s) st = startSpellTimer now i s st"
| "perform (ClearUltTimer i) st = clearUltTimer i st"
| "perform (ClearSpellTimer i s) st = clearSpellTimer i s st"
| "perform ResetAll st = resetAll st"

text \<open>A sequence of operations; it stops at an operation that leaves the typed model.\<close>

fun run :: "action list \<Rightarrow> TimerStoreState \<Rightarrow> error + TimerStoreState" where
  "run [] st = Inr st"
| "run (a # as) st = (case perform a st of Inl e \<Rightarrow> Inl e | Inr st' \<Rightarrow> run as st')"

subsection \<open>The specification's words\<close>

text \<open>The tier cycle of the specification: 1, 6, 11, 16 and back to 1.\<close>

fun spec_nextLevel :: "ChampionLevel \<Rightarrow> ChampionLevel" where
  "spec_nextLevel L1 = L6"
| "spec_nextLevel L6 = L11"
| "spec_nextLevel L11 = L16"
| "spec_nextLevel L16 = L1"

text \<open>
  The derived active cooldown of the specification: unavailable at level 1, the entry
  of the tier table at position 0, 1, 2 for the levels 6, 11, 16.
\<close>

fun spec_activeUltCooldown ::
    "ChampionLevel \<Rightarrow> number \<times> number \<times> number \<Rightarrow> number option" where
  "spec_activeUltCooldown L1 cds = None"
| "spec_activeUltCooldown L6 cds = Some (fst cds)"
| "spec_activeUltCooldown L11 cds = Some (fst (snd cds))"
| "spec_activeUltCooldown L16 cds = Some (snd (snd cds))"

text \<open>
  The base cooldown of tier \<open>k\<close> in a detail record: entry \<open>k\<close> of the cooldowns of the
  fourth spell, and \<open>0\<close> where that spell or that entry is missing.
\<close>

definition spec_ultCooldown :: "ChampionDetail \<Rightarrow> nat \<Rightarrow> number" where
  "spec_ultCooldown detail k =
     (if 3 < length (spells detail) \<and> k < length (cooldown (spells detail ! 3))
      then cooldown (spells detail ! 3) ! k
      else Finite 0)"

text \<open>A slot whose derived cooldown is in step with its level and its tier table.\<close>

definition slotDerived :: "EnemyChampion \<Rightarrow> bool" where
  "slotDerived c \<longleftrightarrow>
     activeUltCooldown c = spec_activeUltCooldown (currentLevel c) (ultBaseCooldowns c)"

text \<open>The invariant of the store: five slots, each with its derived cooldown in step.\<close>

definition storeInvariant :: "TimerStoreState \<Rightarrow> bool" where
  "storeInvariant st \<longleftrightarrow> length (enemies st) = 5 \<and> list_all slotDerived (enemies st)"

subsection \<open>Example data\<close>

definition luxDetail :: ChampionDetail where
  "luxDetail =
     \<lparr> d_id = ''Lux'', d_name = ''Lux'',
       spells = [\<lparr>cooldown = map Finite [10, 9, 8, 7, 6]\<rparr>,
                 \<lparr>cooldown = map Finite [11, 10, 9, 8, 7]\<rparr>,
                 \<lparr>cooldown = map Finite [10, 10, 10, 10, 10]\<rparr>,
                 \<lparr>cooldown = map Finite [80, 60, 40]\<rparr>] \<rparr>"

text \<open>A detail record without its fourth spell.\<close>

definition bareDetail :: ChampionDetail where
  "bareDetail = \<lparr> d_id = ''Lux'', d_name = ''Lux'', spells = [] \<rparr>"

definition luxSlot :: EnemyChampion where
  "luxSlot =
     createEmptyChampion
       \<lparr> id_champ := ''Lux'', name := ''Lux'',
         ultBaseCooldowns := (Finite 80, Finite 60, Finite 40),
         currentLevel := L6, activeUltCooldown := Some (Finite 80) \<rparr>"

definition emptySlots :: "EnemyChampion list" where
  "emptySlots = [createEmptyChampion, createEmptyChampion, createEmptyChampion, createEmptyChampion]"

text \<open>The store after \<^verbatim>\<open>setChampionData(0, luxDetail)\<close> on the initial state.\<close>

definition luxState :: TimerStoreState where
  "luxState = \<lparr> enemies = luxSlot # emptySlots \<rparr>"

text \<open>The same store with the ultimate timer of slot 0 running until 80000 ms.\<close>

definition luxRunning :: TimerStoreState where
  "luxRunning = \<lparr> enemies = luxSlot\<lparr>ultEndTime := Some (Finite 80000)\<rparr> # emptySlots \<rparr>"

text \<open>
  The store \<open>luxRunning\<close> after three level cycles: slot 0 is at level 1, without an
  active ultimate cooldown, and its ultimate timer still runs.
\<close>

definition luxLevel1Running :: TimerStoreState where
  "luxLevel1Running =
     \<lparr> enemies =
         luxSlot\<lparr>currentLevel := L1, activeUltCooldown := None,
                  ultEndTime := Some (Finite 80000)\<rparr> # emptySlots \<rparr>"

text \<open>The store \<open>luxState\<close> with both spell timers of slot 0 running until 300000 ms.\<close>

definition luxSpellsRunning :: TimerStoreState where
  "luxSpellsRunning =
     \<lparr> enemies =
         luxSlot\<lparr>spell1EndTime := Some (Finite 300000), spell2EndTime := Some (Finite 300000)\<rparr>
           # emptySlots \<rparr>"

text \<open>
  A persisted state: in slot 0 the ultimate timer ends at 90000 ms, the first spell
  timer at 5000 ms, the second spell timer is inactive.
\<close>

definition persistedExample :: TimerStoreState where
  "persistedExample =
     \<lparr> enemies =
         luxSlot\<lparr>ultEndTime := Some (Finite 90000), spell1EndTime := Some (Finite 5000)\<rparr>
           # emptySlots \<rparr>"

text \<open>The store after \<^verbatim>\<open>setSummonerSpell(0, 1, "", 0)\<close> on \<open>luxState\<close>.\<close>

definition noSpellState :: TimerStoreState where
  "noSpellState =
     \<lparr> enemies = luxSlot\<lparr>spell1Id := '''', spell1BaseCooldown := Finite 0\<rparr> # emptySlots \<rparr>"

definition exampleActions :: "action list" where
  "exampleActions =
     [SetChampionData 0 luxDetail, CycleLevel 0, SetAbilityHaste 0 (Finite 100),
      StartUltTimer 1000 0]"

definition exampleFinal :: TimerStoreState where
  "exampleFinal =
     \<lparr> enemies =
         luxSlot\<lparr>currentLevel := L11, activeUltCooldown := Some (Finite 60),
                  abilityHaste := Finite 100, ultEndTime := Some (Finite 31000)\<rparr>
           # emptySlots \<rparr>"

text \<open>
  A sequence that passes a timer start with the haste \<open>-100\<close>, where the cooldown
  formula divides by zero, and goes on.
\<close>

definition divisionActions :: "action list" where
  "divisionActions =
     [SetChampionData 0 luxDetail, SetAbilityHaste 0 (Finite (- 100)), StartUltTimer 1000 0,
      CycleLevel 0]"

definition divisionFinal :: TimerStoreState where
  "divisionFinal =
     \<lparr> enemies =
         luxSlot\<lparr>currentLevel := L11, activeUltCooldown := Some (Finite 60),
                  abilityHaste := Finite (- 100), ultEndTime := Some PosInf\<rparr>
           # emptySlots \<rparr>"

text \<open>
  The store after \<^verbatim>\<open>setChampionData(0, bareDetail)\<close> and \<^verbatim>\<open>setAbilityHaste(0, -100)\<close> on
  the initial state: slot 0 has the active ultimate cooldown \<open>0\<close> and the haste \<open>-100\<close>.
\<close>

definition bareSlot :: EnemyChampion where
  "bareSlot =
     createEmptyChampion
       \<lparr> id_champ := ''Lux'', name := ''Lux'', currentLevel := L6,
         activeUltCooldown := Some (Finite 0) \<rparr>"

definition bareActions :: "action list" where
  "bareActions = [SetChampionData 0 bareDetail, SetAbilityHaste 0 (Finite (- 100))]"

definition bareHasteState :: TimerStoreState where
  "bareHasteState = \<lparr> enemies = bareSlot\<lparr>abilityHaste := Finite (- 100)\<rparr> # emptySlots \<rparr>"

section \<open>Facts about rounding\<close>

text \<open>Evaluation of the exponent search on numerals.\<close>

lemma halvings_numeral:
  "halvings (numeral k) x = (if x < 2 then 0 else halvings (pred_numeral k) (x / 2) + 1)"
  by (simp add: numeral_eq_Suc)

lemma doublings_numeral:
  "doublings (numeral k) x = (if 1 \<le> x then 0 else doublings (pred_numeral k) (2 * x) + 1)"
  by (simp add: numeral_eq_Suc)

lemmas round64_eval = round64_def nearest_def ulp_def exponent_def roundEven_def Let_def
  halvings_numeral doublings_numeral

lemma halvings_bounds:
  "1 \<le> x \<Longrightarrow>
     0 \<le> halvings n x \<and> halvings n x \<le> int n \<and> 2 powi (halvings n x) \<le> x
     \<and> (x < 2 powi (halvings n x + 1) \<or> halvings n x = int n)"
proof (induction n arbitrary: x)
  case 0
  then show ?case by simp
next
  case (Suc n)
  show ?case
  proof (cases "x < 2")
    case True
    with Suc.prems show ?thesis by simp
  next
    case False
    then have h: "1 \<le> x / 2" by simp
    from Suc.IH[OF h] False show ?thesis
      by (auto simp add: power_int_add field_simps)
  qed
qed

lemma doublings_bounds:
  "0 \<le> x \<Longrightarrow> x < 1 \<Longrightarrow> 0 < n \<Longrightarrow>
     1 \<le> doublings n x \<and> doublings n x \<le> int n \<and> x < 2 powi (1 - doublings n x)
     \<and> (2 powi (- doublings n x) \<le> x \<or> doublings n x = int n)"
proof (induction n arbitrary: x)
  case 0
  then show ?case by simp
next
  case (Suc n)
  show ?case
  proof (cases "n = 0")
    case True
    with Suc.prems show ?thesis by simp
  next
    case n: False
    show ?thesis
    proof (cases "1 \<le> 2 * x")
      case True
      from n obtain m where m: "n = Suc m" by (cases n) auto
      from True Suc.prems have "doublings (Suc n) x = 1" by (simp add: m)
      with True Suc.prems show ?thesis by (simp add: power_int_minus)
    next
      case False
      then have lt: "2 * x < 1" by simp
      from Suc.prems have nn: "0 \<le> 2 * x" by simp
      from n have pos: "0 < n" by simp
      from Suc.IH[OF nn lt pos] Suc.prems(2) show ?thesis
        by (auto simp add: power_int_diff power_int_minus field_simps)
    qed
  qed
qed

lemma exponent_zero [simp]: "exponent 0 = - 1022"
  by (simp add: exponent_def)

lemma exponent_range: "- 1022 \<le> exponent x \<and> exponent x \<le> 1024"
proof (cases "1 \<le> \<bar>x\<bar>")
  case True
  from halvings_bounds[OF True, of 1024] True show ?thesis by (auto simp add: exponent_def)
next
  case False
  then have "\<bar>x\<bar> < 1" by simp
  from doublings_bounds[OF _ this, of 1022] False show ?thesis by (auto simp add: exponent_def)
qed

lemma exponent_upper: "exponent x < 1024 \<Longrightarrow> \<bar>x\<bar> < 2 powi (exponent x + 1)"
proof (cases "1 \<le> \<bar>x\<bar>")
  case True
  assume "exponent x < 1024"
  with halvings_bounds[OF True, of 1024] True show ?thesis by (auto simp add: exponent_def)
next
  case False
  then have "\<bar>x\<bar> < 1" by simp
  from doublings_bounds[OF _ this, of 1022] False show ?thesis
    by (cases "x = 0") (auto simp add: exponent_def)
qed

lemma exponent_lower: "- 1022 < exponent x \<Longrightarrow> 2 powi (exponent x) \<le> \<bar>x\<bar>"
proof (cases "1 \<le> \<bar>x\<bar>")
  case True
  from halvings_bounds[OF True, of 1024] True show ?thesis by (auto simp add: exponent_def)
next
  case False
  assume e: "- 1022 < exponent x"
  from False have "\<bar>x\<bar> < 1" by simp
  from doublings_bounds[OF _ this, of 1022] False e show ?thesis by (auto simp add: exponent_def)
qed

lemma exponent_mono: "\<bar>x\<bar> \<le> \<bar>y\<bar> \<Longrightarrow> exponent x \<le> exponent y"
proof (rule ccontr)
  assume le: "\<bar>x\<bar> \<le> \<bar>y\<bar>" and "\<not> exponent x \<le> exponent y"
  then have lt: "exponent y < exponent x" by simp
  with exponent_range[of x] have "exponent y < 1024" by simp
  then have a: "\<bar>y\<bar> < 2 powi (exponent y + 1)" by (rule exponent_upper)
  from lt exponent_range[of y] have "- 1022 < exponent x" by simp
  then have b: "2 powi (exponent x) \<le> \<bar>x\<bar>" by (rule exponent_lower)
  from lt have "(2::real) powi (exponent y + 1) \<le> 2 powi (exponent x)"
    by (intro power_int_increasing) simp_all
  with a b le show False by simp
qed

lemma exponent_minus [simp]: "exponent (- x) = exponent x"
  by (simp add: exponent_def)

lemma ulp_pos [simp]: "0 < ulp x"
  by (simp add: ulp_def)

lemma ulp_nonneg [simp]: "0 \<le> ulp x"
  by (simp add: ulp_def)

lemma ulp_minus [simp]: "ulp (- x) = ulp x"
  by (simp add: ulp_def)

lemma roundEven_int [simp]: "roundEven (of_int n) = n"
  by (simp add: roundEven_def)

lemma roundEven_bounds: "\<lfloor>q\<rfloor> \<le> roundEven q \<and> roundEven q \<le> \<lfloor>q\<rfloor> + 1"
  by (simp add: roundEven_def Let_def)

lemma roundEven_mono: "q \<le> q' \<Longrightarrow> roundEven q \<le> roundEven q'"
proof -
  assume le: "q \<le> q'"
  then have fl: "\<lfloor>q\<rfloor> \<le> \<lfloor>q'\<rfloor>" by (rule floor_mono)
  show ?thesis
  proof (cases "\<lfloor>q\<rfloor> = \<lfloor>q'\<rfloor>")
    case True
    with le show ?thesis by (auto simp add: roundEven_def Let_def)
  next
    case False
    with fl have "\<lfloor>q\<rfloor> + 1 \<le> \<lfloor>q'\<rfloor>" by simp
    with roundEven_bounds[of q] roundEven_bounds[of q'] show ?thesis by linarith
  qed
qed

lemma roundEven_minus: "roundEven (- q) = - roundEven q"
proof (cases "q \<in> \<int>")
  case True
  then obtain n where "q = of_int n" by (auto elim: Ints_cases)
  then have "- q = of_int (- n)" by simp
  then show ?thesis using \<open>q = of_int n\<close> by (metis roundEven_int)
next
  case False
  then have "q \<noteq> of_int \<lfloor>q\<rfloor>" by (metis Ints_of_int)
  then have f: "\<lfloor>- q\<rfloor> = - \<lfloor>q\<rfloor> - 1"
    by (simp add: floor_minus ceiling_altdef)
  show ?thesis
    unfolding roundEven_def Let_def f by (auto simp add: field_simps)
qed

lemma nearest_minus: "nearest (- x) = - nearest x"
  by (simp add: nearest_def roundEven_minus)

lemma nearest_nonneg: "0 \<le> x \<Longrightarrow> 0 \<le> nearest x"
proof -
  assume "0 \<le> x"
  then have "0 \<le> x / ulp x" by simp
  then have "roundEven 0 \<le> roundEven (x / ulp x)" by (rule roundEven_mono)
  then have "0 \<le> roundEven (x / ulp x)" using roundEven_int[of 0] by simp
  then show ?thesis by (simp add: nearest_def)
qed

lemma nearest_mono_nonneg:
  assumes "0 \<le> x" and "x \<le> y"
  shows "nearest x \<le> nearest y"
proof (cases "exponent x = exponent y")
  case True
  then have u: "ulp x = ulp y" by (simp add: ulp_def)
  from assms(2) have "x / ulp y \<le> y / ulp y" by (simp add: divide_right_mono)
  then have "roundEven (x / ulp y) \<le> roundEven (y / ulp y)" by (rule roundEven_mono)
  then show ?thesis by (simp add: nearest_def u mult_right_mono)
next
  case False
  from assms have "\<bar>x\<bar> \<le> \<bar>y\<bar>" by simp
  then have "exponent x \<le> exponent y" by (rule exponent_mono)
  with False have lt: "exponent x < exponent y" by simp
  with exponent_range[of y] have "exponent x < 1024" by simp
  then have "\<bar>x\<bar> < 2 powi (exponent x + 1)" by (rule exponent_upper)
  with assms(1) have "x / ulp x \<le> 2 powi (exponent x + 1) / ulp x"
    by (simp add: divide_right_mono)
  also have "2 powi (exponent x + 1) / ulp x = (2::real) ^ 53"
    by (simp add: ulp_def power_int_diff power_int_add)
  finally have "roundEven (x / ulp x) \<le> roundEven (of_int (2 ^ 53))"
    by (intro roundEven_mono) simp
  then have "roundEven (x / ulp x) \<le> 2 ^ 53" by (simp only: roundEven_int)
  then have "of_int (roundEven (x / ulp x)) \<le> (2::real) ^ 53"
    by (metis of_int_le_iff of_int_numeral of_int_power)
  then have "nearest x \<le> 2 ^ 53 * ulp x"
    by (simp add: nearest_def mult_right_mono)
  also have "(2::real) ^ 53 * ulp x = 2 powi (exponent x + 1)"
    by (simp add: ulp_def power_int_diff power_int_add)
  also from lt have "\<dots> \<le> 2 powi (exponent y)"
    by (intro power_int_increasing) simp_all
  finally have up: "nearest x \<le> 2 powi (exponent y)" .
  from lt exponent_range[of x] have "- 1022 < exponent y" by simp
  then have "2 powi (exponent y) \<le> \<bar>y\<bar>" by (rule exponent_lower)
  with assms have "2 powi (exponent y) / ulp y \<le> y / ulp y"
    by (simp add: divide_right_mono)
  moreover have "2 powi (exponent y) / ulp y = (2::real) ^ 52"
    by (simp add: ulp_def power_int_diff)
  ultimately have "roundEven (of_int (2 ^ 52)) \<le> roundEven (y / ulp y)"
    by (intro roundEven_mono) simp
  then have "2 ^ 52 \<le> roundEven (y / ulp y)" by (simp only: roundEven_int)
  then have "(2::real) ^ 52 \<le> of_int (roundEven (y / ulp y))"
    by (metis of_int_le_iff of_int_numeral of_int_power)
  then have "2 ^ 52 * ulp y \<le> nearest y"
    by (simp add: nearest_def mult_right_mono)
  moreover have "(2::real) ^ 52 * ulp y = 2 powi (exponent y)"
    by (simp add: ulp_def power_int_diff)
  ultimately have "2 powi (exponent y) \<le> nearest y" by simp
  with up show ?thesis by simp
qed

lemma nearest_mono: "x \<le> y \<Longrightarrow> nearest x \<le> nearest y"
proof -
  assume le: "x \<le> y"
  consider "0 \<le> x" | "y \<le> 0" | "x < 0" "0 < y" by linarith
  then show ?thesis
  proof cases
    case 1
    then show ?thesis using le by (rule nearest_mono_nonneg)
  next
    case 2
    with le have "0 \<le> - y" "- y \<le> - x" by simp_all
    then have "nearest (- y) \<le> nearest (- x)" by (rule nearest_mono_nonneg)
    then show ?thesis by (simp add: nearest_minus)
  next
    case 3
    then have "0 \<le> nearest (- x)" "0 \<le> nearest y" by (simp_all add: nearest_nonneg)
    then show ?thesis by (simp add: nearest_minus)
  qed
qed

lemma nearest_zero [simp]: "nearest 0 = 0"
  by (simp add: nearest_def roundEven_def)

lemma round64_zero [simp]: "round64 0 = Finite 0"
  by (simp add: round64_def)

lemma round64_one [simp]: "round64 1 = Finite 1"
  by (simp add: round64_eval)

lemma nearest_nonpos: "x \<le> 0 \<Longrightarrow> nearest x \<le> 0"
  using nearest_mono[of x 0] by simp



lemma round64_nonpos_cases:
  "x \<le> 0 \<Longrightarrow> round64 x = NegInf \<or> (\<exists>r. round64 x = Finite r \<and> r \<le> 0)"
  using nearest_nonpos[of x] by (auto simp add: round64_def Let_def)


section \<open>Basic facts\<close>

lemma validIndex_in: "0 \<le> index \<Longrightarrow> index \<le> 4 \<Longrightarrow> validIndex index = Some (nat index)"
  by (simp add: validIndex_def)

lemma validIndex_out: "index < 0 \<or> index > 4 \<Longrightarrow> validIndex index = None"
  by (auto simp add: validIndex_def)

lemma validIndex_SomeD: "validIndex index = Some i \<Longrightarrow> i < 5"
  by (auto simp add: validIndex_def split: if_splits)

lemma updateSlot_in: "i < length xs \<Longrightarrow> updateSlot i f xs = Inr (xs[i := f (xs ! i)])"
  by (simp add: updateSlot_def slotAt_def assign_def)

lemma assign_in: "i < length xs \<Longrightarrow> assign xs i v = Inr (xs[i := v])"
  by (simp add: assign_def)

lemma updateSlot_length: "updateSlot i f xs = Inr ys \<Longrightarrow> length ys = length xs"
  by (auto simp add: updateSlot_def slotAt_def assign_def split: if_splits)

lemma setEnemies_length:
  "setEnemies (updateSlot i f (enemies st)) st = Inr st' \<Longrightarrow> length (enemies st') = length (enemies st)"
  by (auto simp add: setEnemies_def split: sum.splits dest: updateSlot_length)

lemma derive_spec: "deriveActiveUltCooldown l cds = spec_activeUltCooldown l cds"
  by (cases l; cases cds) (simp_all add: deriveActiveUltCooldown_def)

lemma cycle_step:
  "LEVEL_CYCLE ! nat ((indexOf LEVEL_CYCLE l + 1) mod int (length LEVEL_CYCLE)) = spec_nextLevel l"
  by (cases l) (simp_all add: LEVEL_CYCLE_def)

lemma list_all_update: "list_all P xs \<Longrightarrow> P v \<Longrightarrow> list_all P (xs[i := v])"
  by (induction xs arbitrary: i) (auto split: nat.splits)

lemma initial_enemies:
  "enemies initialState =
     [createEmptyChampion, createEmptyChampion, createEmptyChampion, createEmptyChampion,
      createEmptyChampion]"
  by (simp add: initialState_def upt_rec)

lemmas example_defs = luxState_def luxRunning_def luxLevel1Running_def luxSpellsRunning_def
  persistedExample_def noSpellState_def luxSlot_def emptySlots_def createEmptyChampion_def
  luxDetail_def bareDetail_def bareSlot_def bareHasteState_def

lemmas store_defs = validIndex_def slotAt_def assign_def updateSlot_def setEnemies_def
  calculateCooldown_def

section \<open>The level cycle\<close>

text \<open>
  C4. For every valid index and every store of five slots, \<open>cycleLevel\<close> moves the level
  of the slot one step along the cycle 1, 6, 11, 16, 1 and recomputes the active
  ultimate cooldown for the new level; the three end-times of the slot, its other fields
  and all other slots are unchanged.
\<close>

theorem cycleLevel_advances_and_keeps_timers:
  assumes "0 \<le> index" and "index \<le> 4" and "length (enemies st) = 5"
  shows "\<exists>st'. cycleLevel index st = Inr st'
           \<and> length (enemies st') = 5
           \<and> enemies st' ! nat index =
               (enemies st ! nat index)
                 \<lparr> currentLevel := spec_nextLevel (currentLevel (enemies st ! nat index)),
                   activeUltCooldown :=
                     spec_activeUltCooldown
                       (spec_nextLevel (currentLevel (enemies st ! nat index)))
                       (ultBaseCooldowns (enemies st ! nat index)) \<rparr>
           \<and> ultEndTime (enemies st' ! nat index) = ultEndTime (enemies st ! nat index)
           \<and> spell1EndTime (enemies st' ! nat index) = spell1EndTime (enemies st ! nat index)
           \<and> spell2EndTime (enemies st' ! nat index) = spell2EndTime (enemies st ! nat index)
           \<and> (\<forall>j. j \<noteq> nat index \<longrightarrow> enemies st' ! j = enemies st ! j)"
proof -
  from assms have lt: "nat index < length (enemies st)" by simp
  show ?thesis
    using assms lt
    by (simp add: cycleLevel_def validIndex_in updateSlot_in setEnemies_def cycle_step
        derive_spec Let_def)
qed

theorem cycleLevel_advances_and_keeps_timers_witness:
  "\<exists>st'. cycleLevel 0 luxRunning = Inr st'
      \<and> currentLevel (enemies st' ! 0) = L11
      \<and> activeUltCooldown (enemies st' ! 0) = Some (Finite 60)
      \<and> ultEndTime (enemies st' ! 0) = Some (Finite 80000)
      \<and> spell1EndTime (enemies st' ! 0) = None
      \<and> spell2EndTime (enemies st' ! 0) = None
      \<and> enemies st' ! 1 = createEmptyChampion"
proof -
  have len: "length (enemies luxRunning) = 5" by (simp add: luxRunning_def emptySlots_def)
  from cycleLevel_advances_and_keeps_timers [of 0 luxRunning, OF _ _ len]
  obtain st' where st': "cycleLevel 0 luxRunning = Inr st'"
    and slot: "enemies st' ! nat 0 =
               (enemies luxRunning ! nat 0)
                 \<lparr> currentLevel := spec_nextLevel (currentLevel (enemies luxRunning ! nat 0)),
                   activeUltCooldown :=
                     spec_activeUltCooldown
                       (spec_nextLevel (currentLevel (enemies luxRunning ! nat 0)))
                       (ultBaseCooldowns (enemies luxRunning ! nat 0)) \<rparr>"
    and others: "\<forall>j. j \<noteq> nat 0 \<longrightarrow> enemies st' ! j = enemies luxRunning ! j"
    by auto
  from others have "enemies st' ! 1 = enemies luxRunning ! 1" by simp
  with st' slot show ?thesis
    by (simp add: luxRunning_def luxSlot_def emptySlots_def createEmptyChampion_def)
qed

section \<open>Assigning a champion\<close>

lemma ult_cooldowns_spec:
  "nullish
     (slotAt (case slotAt (spells detail) 3 of
                Some s \<Rightarrow> cooldown s
              | None \<Rightarrow> [Finite 0, Finite 0, Finite 0]) k)
     (Finite 0)
     = spec_ultCooldown detail k"
  by (cases "k < 3") (auto simp add: nullish_def slotAt_def spec_ultCooldown_def nth_Cons' )

text \<open>
  C6. For every valid index, every detail record and every store of five slots,
  \<open>setChampionData\<close> replaces the slot by an empty slot carrying the identity of the
  detail record, the base cooldowns of its fourth spell (\<open>0\<close> for a missing entry), the
  level 6 and the first base cooldown as the active one; its three timers are inactive,
  and all other slots are unchanged.
\<close>

theorem setChampionData_replaces_slot:
  assumes "0 \<le> index" and "index \<le> 4" and "length (enemies st) = 5"
  shows "\<exists>st'. setChampionData index detail st = Inr st'
           \<and> length (enemies st') = 5
           \<and> enemies st' ! nat index =
               createEmptyChampion
                 \<lparr> id_champ := d_id detail,
                   name := d_name detail,
                   ultBaseCooldowns :=
                     (spec_ultCooldown detail 0, spec_ultCooldown detail 1, spec_ultCooldown detail 2),
                   currentLevel := L6,
                   activeUltCooldown := Some (spec_ultCooldown detail 0) \<rparr>
           \<and> currentLevel (enemies st' ! nat index) = L6
           \<and> ultEndTime (enemies st' ! nat index) = None
           \<and> spell1EndTime (enemies st' ! nat index) = None
           \<and> spell2EndTime (enemies st' ! nat index) = None
           \<and> (\<forall>j. j \<noteq> nat index \<longrightarrow> enemies st' ! j = enemies st ! j)"
proof -
  from assms have lt: "nat index < length (enemies st)" by simp
  show ?thesis
    using assms lt
    by (simp add: setChampionData_def validIndex_in assign_in setEnemies_def Let_def
        ult_cooldowns_spec createEmptyChampion_def)
qed

theorem setChampionData_replaces_slot_witness:
  "\<exists>st'. setChampionData 0 luxDetail initialState = Inr st'
      \<and> enemies st' ! 0 = luxSlot
      \<and> ultEndTime (enemies st' ! 0) = None
      \<and> enemies st' ! 1 = createEmptyChampion"
proof -
  have len: "length (enemies initialState) = 5" by (simp add: initial_enemies)
  from setChampionData_replaces_slot [of 0 initialState luxDetail, OF _ _ len]
  obtain st' where st': "setChampionData 0 luxDetail initialState = Inr st'"
    and slot: "enemies st' ! nat 0 =
               createEmptyChampion
                 \<lparr> id_champ := d_id luxDetail,
                   name := d_name luxDetail,
                   ultBaseCooldowns :=
                     (spec_ultCooldown luxDetail 0, spec_ultCooldown luxDetail 1,
                      spec_ultCooldown luxDetail 2),
                   currentLevel := L6,
                   activeUltCooldown := Some (spec_ultCooldown luxDetail 0) \<rparr>"
    and u: "ultEndTime (enemies st' ! nat 0) = None"
    and others: "\<forall>j. j \<noteq> nat 0 \<longrightarrow> enemies st' ! j = enemies initialState ! j"
    by auto
  from others have "enemies st' ! 1 = enemies initialState ! 1" by simp
  with st' slot u show ?thesis
    by (simp add: initial_enemies luxSlot_def luxDetail_def spec_ultCooldown_def)
qed

section \<open>Indices out of range\<close>

text \<open>
  C7. For an index below 0 or above 4, each of the twelve operations of the store that
  take a slot index returns the store unchanged and raises nothing; so does the spell
  timer start of the simplified store.
\<close>

theorem invalid_index_is_noop:
  assumes "index < 0 \<or> index > 4"
  shows "setChampion index data st = Inr st
       \<and> setChampionData index detail st = Inr st
       \<and> clearChampion index st = Inr st
       \<and> cycleLevel index st = Inr st
       \<and> setAbilityHaste index haste st = Inr st
       \<and> toggleIonianBoots index st = Inr st
       \<and> toggleCosmicInsight index st = Inr st
       \<and> setSummonerSpell index slot spellId cd st = Inr st
       \<and> startUltTimer now index st = Inr st
       \<and> startSpellTimer now index slot st = Inr st
       \<and> clearUltTimer index st = Inr st
       \<and> clearSpellTimer index slot st = Inr st
       \<and> startSpellTimer_simplified now index slot baseCooldown simple = Inr simple"
  using validIndex_out[OF assms]
  by (simp add: setChampion_def setChampionData_def clearChampion_def cycleLevel_def
      setAbilityHaste_def toggleIonianBoots_def toggleCosmicInsight_def setSummonerSpell_def
      startUltTimer_def startSpellTimer_def clearUltTimer_def clearSpellTimer_def
      startSpellTimer_simplified_def)

theorem invalid_index_is_noop_witness:
  "setChampionData 5 luxDetail luxRunning = Inr luxRunning
   \<and> clearChampion 5 luxRunning = Inr luxRunning
   \<and> cycleLevel (- 1) luxRunning = Inr luxRunning
   \<and> setAbilityHaste 5 (Finite 20) luxRunning = Inr luxRunning
   \<and> startUltTimer 1000 (- 1) luxRunning = Inr luxRunning
   \<and> startSpellTimer 1000 5 Slot1 luxRunning = Inr luxRunning
   \<and> clearUltTimer 5 luxRunning = Inr luxRunning"
proof -
  have a: "(5::int) < 0 \<or> (5::int) > 4" and b: "(- 1::int) < 0 \<or> (- 1::int) > 4" by simp_all
  from invalid_index_is_noop [OF a, of _ luxRunning luxDetail "Finite 20" _ _ _ 1000]
       invalid_index_is_noop [OF b, of _ luxRunning _ _ _ _ _ 1000]
  show ?thesis by simp
qed

section \<open>The derived cooldown is an invariant\<close>

lemma empty_derived: "slotDerived createEmptyChampion"
  by (simp add: slotDerived_def createEmptyChampion_def)

lemma initial_invariant: "storeInvariant initialState"
  by (simp add: storeInvariant_def initial_enemies empty_derived)

lemma update_invariant:
  assumes "storeInvariant st" and "validIndex index = Some i"
    and "\<And>c. slotDerived c \<Longrightarrow> slotDerived (f c)"
  shows "\<exists>st'. setEnemies (updateSlot i f (enemies st)) st = Inr st' \<and> storeInvariant st'"
proof -
  from assms(1) have len: "length (enemies st) = 5" and all: "list_all slotDerived (enemies st)"
    by (simp_all add: storeInvariant_def)
  from assms(2) len have lt: "i < length (enemies st)" by (simp add: validIndex_SomeD)
  from all lt have "slotDerived (enemies st ! i)" by (simp add: list_all_length)
  then have "slotDerived (f (enemies st ! i))" by (rule assms(3))
  with all have "list_all slotDerived ((enemies st)[i := f (enemies st ! i)])"
    by (rule list_all_update)
  with len lt show ?thesis
    by (simp add: updateSlot_in setEnemies_def storeInvariant_def)
qed

lemma assign_invariant:
  assumes "storeInvariant st" and "validIndex index = Some i" and "slotDerived v"
  shows "\<exists>st'. setEnemies (assign (enemies st) i v) st = Inr st' \<and> storeInvariant st'"
proof -
  from assms(1) have len: "length (enemies st) = 5" and all: "list_all slotDerived (enemies st)"
    by (simp_all add: storeInvariant_def)
  from assms(2) len have lt: "i < length (enemies st)" by (simp add: validIndex_SomeD)
  from all assms(3) have "list_all slotDerived ((enemies st)[i := v])"
    by (rule list_all_update)
  with len lt show ?thesis
    by (simp add: assign_in setEnemies_def storeInvariant_def)
qed

lemma update_invariantD:
  assumes "setEnemies (updateSlot i f (enemies st)) st = Inr st'"
    and "storeInvariant st" and "validIndex index = Some i"
    and "\<And>c. slotDerived c \<Longrightarrow> slotDerived (f c)"
  shows "storeInvariant st'"
proof -
  have "\<exists>s. setEnemies (updateSlot i f (enemies st)) st = Inr s \<and> storeInvariant s"
    using assms(2) assms(3) by (rule update_invariant) (rule assms(4))
  with assms(1) show ?thesis by auto
qed

lemma updating_invariant:
  assumes "(case validIndex index of
              None \<Rightarrow> Inr st
            | Some i \<Rightarrow> setEnemies (updateSlot i f (enemies st)) st) = Inr st'"
    and "storeInvariant st"
    and "\<And>c. slotDerived c \<Longrightarrow> slotDerived (f c)"
  shows "storeInvariant st'"
proof (cases "validIndex index")
  case None
  with assms(1,2) show ?thesis by simp
next
  case (Some i)
  have "\<exists>s. setEnemies (updateSlot i f (enemies st)) st = Inr s \<and> storeInvariant s"
    using assms(2) Some by (rule update_invariant) (rule assms(3))
  with assms(1) Some show ?thesis by auto
qed

lemma assigning_invariant:
  assumes "(case validIndex index of
              None \<Rightarrow> Inr st
            | Some i \<Rightarrow> setEnemies (assign (enemies st) i v) st) = Inr st'"
    and "storeInvariant st"
    and "slotDerived v"
  shows "storeInvariant st'"
proof (cases "validIndex index")
  case None
  with assms(1,2) show ?thesis by simp
next
  case (Some i)
  have "\<exists>s. setEnemies (assign (enemies st) i v) st = Inr s \<and> storeInvariant s"
    using assms(2) Some assms(3) by (rule assign_invariant)
  with assms(1) Some show ?thesis by auto
qed

lemma perform_invariant:
  assumes inv: "storeInvariant st" and ok: "perform a st = Inr st'"
  shows "storeInvariant st'"
proof (cases a)
  case (SetChampion index d)
  from ok show ?thesis unfolding SetChampion perform.simps setChampion_def
    by (rule updating_invariant) (simp_all add: inv slotDerived_def derive_spec Let_def)
next
  case (SetChampionData index d)
  from ok show ?thesis unfolding SetChampionData perform.simps setChampionData_def Let_def
    by (rule assigning_invariant) (simp_all add: inv slotDerived_def)
next
  case (ClearChampion index)
  from ok show ?thesis unfolding ClearChampion perform.simps clearChampion_def
    by (rule assigning_invariant) (simp_all add: inv empty_derived)
next
  case (CycleLevel index)
  from ok show ?thesis unfolding CycleLevel perform.simps cycleLevel_def
    by (rule updating_invariant) (simp_all add: inv slotDerived_def derive_spec Let_def)
next
  case (SetAbilityHaste index h)
  from ok show ?thesis unfolding SetAbilityHaste perform.simps setAbilityHaste_def
    by (rule updating_invariant) (simp_all add: inv slotDerived_def)
next
  case (ToggleIonianBoots index)
  from ok show ?thesis unfolding ToggleIonianBoots perform.simps toggleIonianBoots_def
    by (rule updating_invariant) (simp_all add: inv slotDerived_def Let_def)
next
  case (ToggleCosmicInsight index)
  from ok show ?thesis unfolding ToggleCosmicInsight perform.simps toggleCosmicInsight_def
    by (rule updating_invariant) (simp_all add: inv slotDerived_def Let_def)
next
  case (SetSummonerSpell index slot sid cd)
  from ok show ?thesis unfolding SetSummonerSpell perform.simps setSummonerSpell_def
    by (rule updating_invariant) (simp_all add: inv slotDerived_def)
next
  case (StartUltTimer now index)
  show ?thesis
  proof (cases "validIndex index")
    case None
    with ok inv StartUltTimer show ?thesis by (simp add: startUltTimer_def)
  next
    case (Some i)
    note D = update_invariantD[OF _ inv Some]
    from ok inv StartUltTimer Some show ?thesis
      by (auto simp add: startUltTimer_def slotDerived_def Let_def split: option.splits dest: D)
  qed
next
  case (StartSpellTimer now index slot)
  show ?thesis
  proof (cases "validIndex index")
    case None
    with ok inv StartSpellTimer show ?thesis by (simp add: startSpellTimer_def)
  next
    case (Some i)
    note D = update_invariantD[OF _ inv Some]
    from ok inv StartSpellTimer Some show ?thesis
      by (auto simp add: startSpellTimer_def slotDerived_def Let_def
          split: option.splits if_splits dest: D)
  qed
next
  case (ClearUltTimer index)
  from ok show ?thesis unfolding ClearUltTimer perform.simps clearUltTimer_def
    by (rule updating_invariant) (simp_all add: inv slotDerived_def)
next
  case (ClearSpellTimer index slot)
  from ok show ?thesis unfolding ClearSpellTimer perform.simps clearSpellTimer_def
    by (rule updating_invariant) (simp_all add: inv slotDerived_def)
next
  case ResetAll
  with ok have "st' = st\<lparr>enemies := map (\<lambda>_. createEmptyChampion) [0..<5]\<rparr>"
    by (simp add: resetAll_def)
  then show ?thesis
    by (simp add: storeInvariant_def empty_derived upt_rec)
qed

text \<open>From a store of five slots every operation returns a store.\<close>

lemma perform_total:
  assumes len: "length (enemies st) = 5"
  shows "\<exists>st'. perform a st = Inr st'"
proof -
  have lt: "i < length (enemies st)" if "validIndex index = Some i" for index i
    using that len by (simp add: validIndex_SomeD)
  show ?thesis
  proof (cases a)
    case (SetChampion index d)
    then show ?thesis
      by (auto simp add: setChampion_def updateSlot_in setEnemies_def lt split: option.splits)
  next
    case (SetChampionData index d)
    then show ?thesis
      by (auto simp add: setChampionData_def assign_in setEnemies_def Let_def lt
          split: option.splits)
  next
    case (ClearChampion index)
    then show ?thesis
      by (auto simp add: clearChampion_def assign_in setEnemies_def lt split: option.splits)
  next
    case (CycleLevel index)
    then show ?thesis
      by (auto simp add: cycleLevel_def updateSlot_in setEnemies_def lt split: option.splits)
  next
    case (SetAbilityHaste index h)
    then show ?thesis
      by (auto simp add: setAbilityHaste_def updateSlot_in setEnemies_def lt split: option.splits)
  next
    case (ToggleIonianBoots index)
    then show ?thesis
      by (auto simp add: toggleIonianBoots_def updateSlot_in setEnemies_def lt
          split: option.splits)
  next
    case (ToggleCosmicInsight index)
    then show ?thesis
      by (auto simp add: toggleCosmicInsight_def updateSlot_in setEnemies_def lt
          split: option.splits)
  next
    case (SetSummonerSpell index slot sid cd)
    then show ?thesis
      by (auto simp add: setSummonerSpell_def updateSlot_in setEnemies_def lt
          split: option.splits)
  next
    case (StartUltTimer now index)
    then show ?thesis
      by (auto simp add: startUltTimer_def updateSlot_in setEnemies_def slotAt_def Let_def lt
          split: option.splits)
  next
    case (StartSpellTimer now index slot)
    then show ?thesis
      by (auto simp add: startSpellTimer_def updateSlot_in setEnemies_def slotAt_def Let_def lt
          split: option.splits)
  next
    case (ClearUltTimer index)
    then show ?thesis
      by (auto simp add: clearUltTimer_def updateSlot_in setEnemies_def lt split: option.splits)
  next
    case (ClearSpellTimer index slot)
    then show ?thesis
      by (auto simp add: clearSpellTimer_def updateSlot_in setEnemies_def lt split: option.splits)
  next
    case ResetAll
    then show ?thesis by (simp add: resetAll_def)
  qed
qed

lemma run_invariant:
  "storeInvariant st \<Longrightarrow> \<exists>st'. run acts st = Inr st' \<and> storeInvariant st'"
proof (induction acts arbitrary: st)
  case Nil
  then show ?case by simp
next
  case (Cons a acts)
  from Cons.prems have "length (enemies st) = 5" by (simp add: storeInvariant_def)
  then obtain s where s: "perform a st = Inr s" using perform_total by blast
  with Cons.prems have "storeInvariant s" by (rule perform_invariant)
  then obtain st' where "run acts s = Inr st'" "storeInvariant st'" using Cons.IH by blast
  with s show ?case by simp
qed

text \<open>
  C5. Every sequence of the public mutation operations takes the initial store to a
  store (no operation fails on the way), and in that store there are five slots, in
  each of which the active ultimate cooldown is \<^verbatim>\<open>null\<close> at level 1 and the entry 0, 1, 2
  of the base cooldowns at the levels 6, 11, 16: no operation sets it apart from the
  level and the base cooldowns.
\<close>

theorem activeUltCooldown_always_derived:
  "\<exists>st. run acts initialState = Inr st
      \<and> length (enemies st) = 5
      \<and> (\<forall>c \<in> set (enemies st).
           activeUltCooldown c = spec_activeUltCooldown (currentLevel c) (ultBaseCooldowns c))"
proof -
  from initial_invariant obtain st where "run acts initialState = Inr st" "storeInvariant st"
    using run_invariant by blast
  then show ?thesis by (auto simp add: storeInvariant_def list_all_iff slotDerived_def)
qed

theorem activeUltCooldown_always_derived_witness:
  "run exampleActions initialState = Inr exampleFinal
   \<and> run divisionActions initialState = Inr divisionFinal
   \<and> length (enemies divisionFinal) = 5
   \<and> list_all
        (\<lambda>c. activeUltCooldown c = spec_activeUltCooldown (currentLevel c) (ultBaseCooldowns c))
        (enemies divisionFinal)"
proof -
  have r: "run exampleActions initialState = Inr exampleFinal"
    by (simp add: exampleActions_def exampleFinal_def initialState_def upt_rec
        setChampionData_def cycleLevel_def setAbilityHaste_def startUltTimer_def store_defs
        example_defs nullish_def LEVEL_CYCLE_def deriveActiveUltCooldown_def round64_eval)
  have d: "run divisionActions initialState = Inr divisionFinal"
    by (simp add: divisionActions_def divisionFinal_def initialState_def upt_rec
        setChampionData_def cycleLevel_def setAbilityHaste_def startUltTimer_def store_defs
        example_defs nullish_def LEVEL_CYCLE_def deriveActiveUltCooldown_def round64_eval)
  from activeUltCooldown_always_derived [of divisionActions] d
  have "length (enemies divisionFinal) = 5
      \<and> (\<forall>c \<in> set (enemies divisionFinal).
           activeUltCooldown c = spec_activeUltCooldown (currentLevel c) (ultBaseCooldowns c))"
    by auto
  with r d show ?thesis by (simp add: list_all_iff)
qed

section \<open>The ability haste\<close>

text \<open>
  C8, as amended. The clamp is in the handler of the haste input: for every valid index
  and every input text, \<open>handleHasteChange\<close> stores the parsed number when it is at least
  \<open>0\<close>, and \<open>0\<close> when it is negative or not a number, so the stored haste is not
  negative. The store's \<open>setAbilityHaste\<close> stores its argument as it is.
\<close>

theorem handleHasteChange_clamps:
  assumes "0 \<le> index" and "index \<le> 4" and "length (enemies st) = 5"
  shows "(\<exists>st'. handleHasteChange parseInt index text st = Inr st'
            \<and> abilityHaste (enemies st' ! nat index) =
                (case parseInt text of
                   None \<Rightarrow> Finite 0
                 | Some n \<Rightarrow> if 0 \<le> n then Finite (of_int n) else Finite 0)
            \<and> js_le (Finite 0) (abilityHaste (enemies st' ! nat index)))
       \<and> setAbilityHaste index v st =
           Inr (st\<lparr>enemies := (enemies st)[nat index :=
                  (enemies st ! nat index)\<lparr>abilityHaste := v\<rparr>]\<rparr>)"
proof -
  from assms have lt: "nat index < length (enemies st)" by simp
  have S: "setAbilityHaste index h st =
           Inr (st\<lparr>enemies := (enemies st)[nat index :=
                  (enemies st ! nat index)\<lparr>abilityHaste := h\<rparr>]\<rparr>)" for h
    using assms lt by (simp add: setAbilityHaste_def validIndex_in updateSlot_in setEnemies_def)
  show ?thesis
    using lt by (auto simp add: handleHasteChange_def S Let_def split: option.splits)
qed

theorem handleHasteChange_clamps_witness:
  "(\<exists>st'. handleHasteChange (\<lambda>_. Some (- 5)) 0 ''-5'' luxState = Inr st'
       \<and> abilityHaste (enemies st' ! 0) = Finite 0)
   \<and> (\<exists>st'. handleHasteChange (\<lambda>_. None) 0 ''abc'' luxState = Inr st'
       \<and> abilityHaste (enemies st' ! 0) = Finite 0)
   \<and> (\<exists>st'. handleHasteChange (\<lambda>_. Some 20) 0 ''20'' luxState = Inr st'
       \<and> abilityHaste (enemies st' ! 0) = Finite 20)
   \<and> setAbilityHaste 0 (Finite 20) luxState =
       Inr \<lparr> enemies = luxSlot\<lparr>abilityHaste := Finite 20\<rparr> # emptySlots \<rparr>"
proof -
  have len: "length (enemies luxState) = 5" by (simp add: luxState_def emptySlots_def)
  from handleHasteChange_clamps [of 0 luxState "\<lambda>_. Some (- 5)" "''-5''" "Finite 20", OF _ _ len]
  have a: "\<exists>st'. handleHasteChange (\<lambda>_. Some (- 5)) 0 ''-5'' luxState = Inr st'
            \<and> abilityHaste (enemies st' ! 0) = Finite 0"
    and d: "setAbilityHaste 0 (Finite 20) luxState =
       Inr \<lparr> enemies = luxSlot\<lparr>abilityHaste := Finite 20\<rparr> # emptySlots \<rparr>"
    by (auto simp add: luxState_def)
  from handleHasteChange_clamps [of 0 luxState "\<lambda>_. None" "''abc''" "Finite 20", OF _ _ len]
  have b: "\<exists>st'. handleHasteChange (\<lambda>_. None) 0 ''abc'' luxState = Inr st'
            \<and> abilityHaste (enemies st' ! 0) = Finite 0"
    by auto
  from handleHasteChange_clamps [of 0 luxState "\<lambda>_. Some 20" "''20''" "Finite 20", OF _ _ len]
  have c: "\<exists>st'. handleHasteChange (\<lambda>_. Some 20) 0 ''20'' luxState = Inr st'
            \<and> abilityHaste (enemies st' ! 0) = Finite 20"
    by auto
  from a b c d show ?thesis by blast
qed

text \<open>The store's \<open>setAbilityHaste\<close> with the value \<open>-5\<close>.\<close>

theorem setAbilityHaste_negative_counterexample:
  "setAbilityHaste 0 (Finite (- 5)) luxState =
     Inr \<lparr> enemies = luxSlot\<lparr>abilityHaste := Finite (- 5)\<rparr> # emptySlots \<rparr>
   \<and> js_lt (abilityHaste (luxSlot\<lparr>abilityHaste := Finite (- 5)\<rparr>)) (Finite 0)"
  by (simp add: setAbilityHaste_def store_defs luxState_def)

section \<open>Spell timers without a cooldown\<close>

text \<open>
  C9, as amended. In the persisted store, for every valid index and either spell slot,
  \<open>startSpellTimer\<close> returns the store unchanged when the stored base cooldown of that
  spell is zero or negative. The simplified store keeps no base cooldown and has no such
  test.
\<close>

theorem startSpellTimer_refuses_without_cooldown:
  assumes "0 \<le> index" and "index \<le> 4" and "length (enemies st) = 5"
    and "js_le (if slot = Slot1 then spell1BaseCooldown (enemies st ! nat index)
                else spell2BaseCooldown (enemies st ! nat index)) (Finite 0)"
  shows "startSpellTimer now index slot st = Inr st"
proof -
  from assms have lt: "nat index < length (enemies st)" by simp
  show ?thesis
    using assms lt
    by (simp add: startSpellTimer_def validIndex_in slotAt_def Let_def)
qed

theorem startSpellTimer_refuses_without_cooldown_witness:
  "spell1BaseCooldown (enemies noSpellState ! 0) = Finite 0
   \<and> startSpellTimer 1000 0 Slot1 noSpellState = Inr noSpellState"
proof -
  have len: "length (enemies noSpellState) = 5" by (simp add: noSpellState_def emptySlots_def)
  have z: "spell1BaseCooldown (enemies noSpellState ! 0) = Finite 0"
    by (simp add: noSpellState_def)
  from startSpellTimer_refuses_without_cooldown [of 0 noSpellState Slot1 1000, OF _ _ len] z
  show ?thesis by simp
qed

text \<open>
  The simplified store's \<open>startSpellTimer\<close> with the base cooldown \<open>0\<close>, at clock
  1000 ms: a timer that ends at 1000 ms is started.
\<close>

theorem simplified_startSpellTimer_counterexample:
  "validIndex 0 = Some 0
   \<and> startSpellTimer_simplified 1000 0 Slot1 (Finite 0) initialState_simplified =
       Inr \<lparr> s_enemies =
               [createEmptyChampion_simplified\<lparr>s_spell1EndTime := Some (Finite 1000)\<rparr>,
                createEmptyChampion_simplified, createEmptyChampion_simplified,
                createEmptyChampion_simplified, createEmptyChampion_simplified] \<rparr>
   \<and> startSpellTimer_simplified 1000 0 Slot1 (Finite 0) initialState_simplified
       \<noteq> Inr initialState_simplified"
  by (simp add: startSpellTimer_simplified_def validIndex_def slotAt_def initialState_simplified_def
      upt_rec calculateCooldown_def updateSlot_def assign_def
      createEmptyChampion_simplified_def round64_eval)

section \<open>The cooldown formula\<close>




text \<open>
  The formula on the scenarios of the specification: 80 s at haste 100 are 40 s, and
  300 s at haste 30 are the double nearest to 300 / 1.3, which is
  \<open>4059735241019077 / 2\<^sup>4\<^sup>4\<close>. A haste of \<open>-100\<close> divides by zero.
\<close>

lemma calculateCooldown_examples:
  "calculateCooldown (Finite 80) (Finite 100) = Finite 40"
  "calculateCooldown (Finite 300) (Finite 30) = Finite (4059735241019077 / 2 ^ 44)"
  "calculateCooldown (Finite 80) (Finite (- 100)) = PosInf"
  "calculateCooldown (Finite 0) (Finite (- 100)) = NaN"
  by (simp_all add: calculateCooldown_def round64_eval)




section \<open>Ultimate timers of length zero\<close>

lemma roundEven_near: "\<bar>of_int (roundEven q) - q\<bar> \<le> 1 / 2"
  unfolding roundEven_def Let_def by (auto simp add: abs_if) linarith+

lemma nearest_near: "\<bar>nearest x - x\<bar> \<le> ulp x / 2"
proof -
  have "nearest x - x = (of_int (roundEven (x / ulp x)) - x / ulp x) * ulp x"
    by (simp add: nearest_def left_diff_distrib less_imp_neq[OF ulp_pos, symmetric])
  then have "\<bar>nearest x - x\<bar> = \<bar>of_int (roundEven (x / ulp x)) - x / ulp x\<bar> * ulp x"
    by (simp add: abs_mult)
  also have "\<dots> \<le> 1 / 2 * ulp x"
    by (intro mult_right_mono roundEven_near) simp
  finally show ?thesis by simp
qed

lemma exponent_eq:
  assumes "2 powi e \<le> \<bar>x\<bar>" and "\<bar>x\<bar> < 2 powi (e + 1)" and "- 1022 \<le> e" and "e \<le> 1023"
  shows "exponent x = e"
proof (rule ccontr)
  assume ne: "exponent x \<noteq> e"
  show False
  proof (cases "exponent x < e")
    case True
    with assms(4) have "exponent x < 1024" by simp
    then have "\<bar>x\<bar> < 2 powi (exponent x + 1)" by (rule exponent_upper)
    also from True have "(2::real) powi (exponent x + 1) \<le> 2 powi e"
      by (intro power_int_increasing) simp_all
    finally show False using assms(1) by simp
  next
    case False
    with ne have gt: "e < exponent x" by simp
    with assms(3) have "- 1022 < exponent x" by simp
    then have "2 powi (exponent x) \<le> \<bar>x\<bar>" by (rule exponent_lower)
    moreover from gt have "(2::real) powi (e + 1) \<le> 2 powi (exponent x)"
      by (intro power_int_increasing) simp_all
    ultimately show False using assms(2) by simp
  qed
qed

lemma nearest_multiple: "\<exists>k::int. nearest x = of_int k * ulp x"
  by (auto simp add: nearest_def)

lemma round64_Finite: "round64 x = Finite r \<Longrightarrow> r = nearest x"
  by (auto simp add: round64_def Let_def split: if_splits)

text \<open>The only double whose hundredth rounds to \<open>-1\<close> is \<open>-100\<close>.\<close>

lemma double_near_minus_100:
  assumes d: "is_double h" and n: "\<bar>h + 100\<bar> < 1 / 2 ^ 46"
  shows "h = - 100"
proof -
  from n have b: "64 \<le> \<bar>h\<bar>" "\<bar>h\<bar> < 128" by (simp_all add: abs_if split: if_splits)
  have "exponent h = 6"
    using b by (intro exponent_eq) simp_all
  then have u: "ulp h = 1 / 2 ^ 46" by (simp add: ulp_def power_int_minus field_simps)
  from d have "h = nearest h" by (simp add: is_double_def round64_Finite)
  with nearest_multiple[of h] u obtain k :: int where k: "h = of_int k / 2 ^ 46" by auto
  with n have "\<bar>of_int k / 2 ^ 46 + (100::real)\<bar> < 1 / 2 ^ 46" by simp
  then have "\<bar>(of_int k + 100 * 2 ^ 46) / (2::real) ^ 46\<bar> < 1 / 2 ^ 46"
    by (simp add: field_simps)
  then have "\<bar>of_int k + 100 * (2::real) ^ 46\<bar> < 1"
    by (simp add: abs_divide field_simps)
  then have "\<bar>of_int (k + 100 * 2 ^ 46) :: real\<bar> < 1" by simp
  then have "\<bar>k + 100 * 2 ^ 46\<bar> < 1" by (metis of_int_abs of_int_less_1_iff)
  then have "k = - (100 * 2 ^ 46)" by simp
  with k show ?thesis by simp
qed

lemma nearest_half: "nearest (- (1 / 2)) = - (1 / 2)" "nearest (- 2) = - 2"
  by (simp_all add: nearest_def ulp_def exponent_def roundEven_def Let_def
      halvings_numeral doublings_numeral)

lemma hundredth_minus_one:
  assumes z: "round64 (1 + nearest x) = Finite 0"
  shows "nearest x = - 1 \<and> \<bar>x + 1\<bar> \<le> 1 / 2 ^ 53"
proof -
  define q where "q = nearest x"
  from z have nz: "nearest (1 + q) = 0" by (auto simp add: q_def dest: round64_Finite)
  have small: "\<bar>1 + q\<bar> < 1 / 2 ^ 1021"
  proof (cases "- 1022 < exponent (1 + q)")
    case True
    then have "2 powi (exponent (1 + q)) \<le> \<bar>1 + q\<bar>" by (rule exponent_lower)
    moreover have "\<bar>nearest (1 + q) - (1 + q)\<bar> = \<bar>1 + q\<bar>" by (auto simp add: nz abs_if)
    with nearest_near[of "1 + q"] have "\<bar>1 + q\<bar> \<le> ulp (1 + q) / 2" by simp
    moreover have "ulp (1 + q) / 2 < 2 powi (exponent (1 + q))"
      by (simp add: ulp_def power_int_diff)
    ultimately show ?thesis by simp
  next
    case False
    with exponent_range[of "1 + q"] have e: "exponent (1 + q) = - 1022" by simp
    then have "exponent (1 + q) < 1024" by simp
    from exponent_upper[OF this] e show ?thesis by (simp add: power_int_minus field_simps)
  qed
  then have q1: "q < - (1 / 2)" and q2: "- 2 < q" by (simp_all add: abs_if split: if_splits)
  have x1: "x < - (1 / 2)"
  proof (rule ccontr)
    assume "\<not> x < - (1 / 2)"
    then have "nearest (- (1 / 2)) \<le> nearest x" by (intro nearest_mono) simp
    with q1 show False by (simp add: nearest_half q_def)
  qed
  have x2: "- 2 < x"
  proof (rule ccontr)
    assume "\<not> - 2 < x"
    then have "nearest x \<le> nearest (- 2)" by (intro nearest_mono) simp
    with q2 show False by (simp add: nearest_half q_def)
  qed
  from x1 x2 have ax: "1 / 2 \<le> \<bar>x\<bar>" "\<bar>x\<bar> < 2" by simp_all
  have e: "exponent x = - 1 \<or> exponent x = 0"
  proof (cases "\<bar>x\<bar> < 1")
    case True
    with ax have "exponent x = - 1" by (intro exponent_eq) (simp_all add: power_int_minus)
    then show ?thesis by simp
  next
    case False
    with ax have "exponent x = 0" by (intro exponent_eq) simp_all
    then show ?thesis by simp
  qed
  then have u: "ulp x = 1 / 2 ^ 53 \<or> ulp x = 1 / 2 ^ 52"
    by (auto simp add: ulp_def power_int_minus field_simps)
  from nearest_multiple[of x] obtain k :: int where k: "q = of_int k * ulp x"
    by (auto simp add: q_def)
  from small have small53: "\<bar>1 + q\<bar> < 1 / 2 ^ 53" and small52: "\<bar>1 + q\<bar> < 1 / 2 ^ 52"
    by simp_all
  have "q = - 1"
  proof -
    from u show ?thesis
    proof
      assume u53: "ulp x = 1 / 2 ^ 53"
      with k have qk: "q = of_int k / 2 ^ 53" by simp
      have "1 + q = (2 ^ 53 + of_int k) / 2 ^ 53" unfolding qk by (simp add: field_simps)
      with small53 have "\<bar>(2 ^ 53 + of_int k) / (2::real) ^ 53\<bar> < 1 / 2 ^ 53"
        by (simp only:)
      then have "\<bar>2 ^ 53 + of_int k :: real\<bar> < 1" by (simp add: abs_divide field_simps)
      then have "\<bar>of_int (2 ^ 53 + k) :: real\<bar> < 1" by simp
      then have "\<bar>2 ^ 53 + k\<bar> < 1" by (metis of_int_abs of_int_less_1_iff)
      then have "k = - (2 ^ 53)" by simp
      with qk show ?thesis by simp
    next
      assume u52: "ulp x = 1 / 2 ^ 52"
      with k have qk: "q = of_int k / 2 ^ 52" by simp
      have "1 + q = (2 ^ 52 + of_int k) / 2 ^ 52" unfolding qk by (simp add: field_simps)
      with small52 have "\<bar>(2 ^ 52 + of_int k) / (2::real) ^ 52\<bar> < 1 / 2 ^ 52"
        by (simp only:)
      then have "\<bar>2 ^ 52 + of_int k :: real\<bar> < 1" by (simp add: abs_divide field_simps)
      then have "\<bar>of_int (2 ^ 52 + k) :: real\<bar> < 1" by simp
      then have "\<bar>2 ^ 52 + k\<bar> < 1" by (metis of_int_abs of_int_less_1_iff)
      then have "k = - (2 ^ 52)" by simp
      with qk show ?thesis by simp
    qed
  qed
  moreover from nearest_near[of x] u have "\<bar>q - x\<bar> \<le> 1 / 2 ^ 53"
    by (auto simp add: q_def)
  ultimately show ?thesis by (auto simp add: q_def abs_if split: if_splits)
qed

lemma denominator_zero_only_at_minus_100:
  assumes d: "is_double h"
    and z: "js_add (Finite 1) (js_div (Finite h) (Finite 100)) = Finite 0"
  shows "h = - 100"
proof -
  from z obtain q where q: "round64 (h / 100) = Finite q" and r: "round64 (1 + q) = Finite 0"
    by (cases "round64 (h / 100)") simp_all
  from q have "q = nearest (h / 100)" by (rule round64_Finite)
  with r have "round64 (1 + nearest (h / 100)) = Finite 0" by simp
  then have "\<bar>h / 100 + 1\<bar> \<le> 1 / 2 ^ 53" using hundredth_minus_one by blast
  then have "\<bar>(h + 100) / 100\<bar> \<le> 1 / 2 ^ 53" by (simp add: field_simps)
  then have "\<bar>h + 100\<bar> \<le> 100 / 2 ^ 53" by (simp add: abs_divide field_simps)
  also have "(100::real) / 2 ^ 53 < 1 / 2 ^ 46" by simp
  finally show ?thesis using d by (intro double_near_minus_100)
qed

lemma denominator_not_NaN: "js_add (Finite 1) (js_div (Finite h) (Finite 100)) \<noteq> NaN"
proof -
  have a: "round64 x \<noteq> NaN" for x by (simp add: round64_def Let_def)
  show ?thesis
    using a[of "h / 100"] by (cases "round64 (h / 100)") (simp_all add: a)
qed

lemma zero_quotient: "d \<noteq> Finite 0 \<Longrightarrow> d \<noteq> NaN \<Longrightarrow> js_div (Finite 0) d = Finite 0"
  by (cases d) simp_all

lemma startUltTimer_zero:
  assumes "0 \<le> index" and "index \<le> 4" and "length (enemies s) = 5"
    and "activeUltCooldown (enemies s ! nat index) = Some (Finite 0)"
    and "js_add (Finite 1) (js_div (abilityHaste (enemies s ! nat index)) (Finite 100)) \<noteq> Finite 0"
    and "js_add (Finite 1) (js_div (abilityHaste (enemies s ! nat index)) (Finite 100)) \<noteq> NaN"
  shows "startUltTimer now index s =
           Inr (s\<lparr>enemies := (enemies s)[nat index :=
                  (enemies s ! nat index)\<lparr>ultEndTime := Some (js_add (Finite now) (Finite 0))\<rparr>]\<rparr>)"
proof -
  from assms(1-3) have lt: "nat index < length (enemies s)" by simp
  from assms(5,6) have "calculateCooldown (Finite 0) (abilityHaste (enemies s ! nat index)) = Finite 0"
    by (simp add: calculateCooldown_def zero_quotient)
  with assms(1-4) lt show ?thesis
    by (simp add: startUltTimer_def validIndex_in slotAt_def updateSlot_in setEnemies_def)
qed

text \<open>
  C10, as amended. \<open>startUltTimer\<close> does not refuse an active ultimate cooldown of \<open>0\<close>:
  for every valid index and every store of five slots whose slot has the active cooldown
  \<open>0\<close> and a haste for which the denominator \<open>1 + haste / 100\<close> of the formula is a number
  other than \<open>0\<close>, it sets the end-time of the ultimate to \<open>now + 0\<close>, which is the clock
  itself. Every double other than \<open>-100\<close> is such a haste. Such a slot is what
  \<open>setChampionData\<close> leaves, at level 6, when the first base cooldown of the detail record
  is missing or \<open>0\<close>.
\<close>

theorem startUltTimer_starts_zero_length_timer:
  assumes "0 \<le> index" and "index \<le> 4" and "length (enemies st) = 5"
  shows "(activeUltCooldown (enemies st ! nat index) = Some (Finite 0)
          \<and> js_add (Finite 1) (js_div (abilityHaste (enemies st ! nat index)) (Finite 100))
              \<noteq> Finite 0
          \<and> js_add (Finite 1) (js_div (abilityHaste (enemies st ! nat index)) (Finite 100))
              \<noteq> NaN \<longrightarrow>
            startUltTimer now index st =
              Inr (st\<lparr>enemies := (enemies st)[nat index :=
                     (enemies st ! nat index)
                       \<lparr>ultEndTime := Some (js_add (Finite now) (Finite 0))\<rparr>]\<rparr>))
       \<and> (is_double now \<longrightarrow> js_add (Finite now) (Finite 0) = Finite now)
       \<and> (is_double h \<and> h \<noteq> - 100 \<longrightarrow>
            js_add (Finite 1) (js_div (Finite h) (Finite 100)) \<noteq> Finite 0
            \<and> js_add (Finite 1) (js_div (Finite h) (Finite 100)) \<noteq> NaN)
       \<and> (spec_ultCooldown detail 0 = Finite 0 \<longrightarrow>
            (\<exists>st1. setChampionData index detail st = Inr st1
               \<and> currentLevel (enemies st1 ! nat index) = L6
               \<and> activeUltCooldown (enemies st1 ! nat index) = Some (Finite 0)
               \<and> startUltTimer now index st1 =
                   Inr (st1\<lparr>enemies := (enemies st1)[nat index :=
                          (enemies st1 ! nat index)
                            \<lparr>ultEndTime := Some (js_add (Finite now) (Finite 0))\<rparr>]\<rparr>)))"
proof (intro conjI impI)
  assume "activeUltCooldown (enemies st ! nat index) = Some (Finite 0)
          \<and> js_add (Finite 1) (js_div (abilityHaste (enemies st ! nat index)) (Finite 100))
              \<noteq> Finite 0
          \<and> js_add (Finite 1) (js_div (abilityHaste (enemies st ! nat index)) (Finite 100))
              \<noteq> NaN"
  with assms show "startUltTimer now index st =
              Inr (st\<lparr>enemies := (enemies st)[nat index :=
                     (enemies st ! nat index)
                       \<lparr>ultEndTime := Some (js_add (Finite now) (Finite 0))\<rparr>]\<rparr>)"
    by (simp add: startUltTimer_zero)
next
  assume "is_double now"
  then show "js_add (Finite now) (Finite 0) = Finite now" by (simp add: is_double_def)
next
  assume "is_double h \<and> h \<noteq> - 100"
  then show "js_add (Finite 1) (js_div (Finite h) (Finite 100)) \<noteq> Finite 0"
    using denominator_zero_only_at_minus_100 by blast
next
  show "js_add (Finite 1) (js_div (Finite h) (Finite 100)) \<noteq> NaN"
    by (rule denominator_not_NaN)
next
  assume z: "spec_ultCooldown detail 0 = Finite 0"
  from assms have lt: "nat index < length (enemies st)" by simp
  define st1 where "st1 = st\<lparr>enemies := (enemies st)[nat index :=
      createEmptyChampion
               \<lparr> id_champ := d_id detail,
                 name := d_name detail,
                 ultBaseCooldowns :=
                   (spec_ultCooldown detail 0, spec_ultCooldown detail 1, spec_ultCooldown detail 2),
                 currentLevel := L6,
                 activeUltCooldown := Some (spec_ultCooldown detail 0) \<rparr>]\<rparr>"
  have s1: "setChampionData index detail st = Inr st1"
    using assms lt
    by (simp add: st1_def setChampionData_def validIndex_in assign_in setEnemies_def Let_def
        ult_cooldowns_spec)
  have l1: "length (enemies st1) = 5" using assms(3) by (simp add: st1_def)
  have a1: "activeUltCooldown (enemies st1 ! nat index) = Some (Finite 0)"
    using lt z by (simp add: st1_def)
  have h1: "abilityHaste (enemies st1 ! nat index) = Finite 0"
    using lt by (simp add: st1_def createEmptyChampion_def)
  have c1: "currentLevel (enemies st1 ! nat index) = L6"
    using lt by (simp add: st1_def)
  have "startUltTimer now index st1 =
           Inr (st1\<lparr>enemies := (enemies st1)[nat index :=
                  (enemies st1 ! nat index)\<lparr>ultEndTime := Some (js_add (Finite now) (Finite 0))\<rparr>]\<rparr>)"
    using assms(1,2) l1 a1 by (rule startUltTimer_zero) (simp_all add: h1)
  with s1 c1 a1
  show "\<exists>st1. setChampionData index detail st = Inr st1
               \<and> currentLevel (enemies st1 ! nat index) = L6
               \<and> activeUltCooldown (enemies st1 ! nat index) = Some (Finite 0)
               \<and> startUltTimer now index st1 =
                   Inr (st1\<lparr>enemies := (enemies st1)[nat index :=
                          (enemies st1 ! nat index)
                            \<lparr>ultEndTime := Some (js_add (Finite now) (Finite 0))\<rparr>]\<rparr>)"
    by blast
qed

theorem startUltTimer_starts_zero_length_timer_witness:
  "\<exists>st1. setChampionData 0 bareDetail initialState = Inr st1
      \<and> currentLevel (enemies st1 ! 0) = L6
      \<and> activeUltCooldown (enemies st1 ! 0) = Some (Finite 0)
      \<and> is_double 1000
      \<and> startUltTimer 1000 0 st1 =
          Inr (st1\<lparr>enemies := (enemies st1)[0 := (enemies st1 ! 0)\<lparr>ultEndTime := Some (Finite 1000)\<rparr>]\<rparr>)
      \<and> js_add (Finite 1) (js_div (Finite 20) (Finite 100)) \<noteq> Finite 0
      \<and> useCountdown (Some (Finite 1000)) 1000 = Finite 0"
proof -
  have len: "length (enemies initialState) = 5" by (simp add: initial_enemies)
  have z: "spec_ultCooldown bareDetail 0 = Finite 0"
    by (simp add: spec_ultCooldown_def bareDetail_def)
  have d: "is_double 1000" by (simp add: is_double_def round64_eval)
  have u: "useCountdown (Some (Finite 1000)) 1000 = Finite 0"
    by (simp add: useCountdown_def js_sub_def)
  note t = startUltTimer_starts_zero_length_timer [of 0 initialState 1000 20 bareDetail, OF _ _ len]
  from t d have n: "js_add (Finite 1000) (Finite 0) = Finite 1000" by simp
  have d20: "is_double 20" by (simp add: is_double_def round64_eval)
  with t have p: "js_add (Finite 1) (js_div (Finite 20) (Finite 100)) \<noteq> Finite 0" by simp
  from t z obtain st1 where "setChampionData 0 bareDetail initialState = Inr st1"
    and "currentLevel (enemies st1 ! 0) = L6"
    and "activeUltCooldown (enemies st1 ! 0) = Some (Finite 0)"
    and "startUltTimer 1000 0 st1 =
          Inr (st1\<lparr>enemies := (enemies st1)[0 := (enemies st1 ! 0)
                 \<lparr>ultEndTime := Some (js_add (Finite 1000) (Finite 0))\<rparr>]\<rparr>)"
    by auto
  with n p d u show ?thesis by auto
qed

text \<open>
  The store after \<^verbatim>\<open>setChampionData(0, bareDetail)\<close> and \<^verbatim>\<open>setAbilityHaste(0, -100)\<close>: the
  active cooldown of slot 0 is \<open>0\<close>, and \<open>startUltTimer\<close> at clock 1000 ms stores \<^verbatim>\<open>NaN\<close>
  as the end-time.
\<close>

theorem startUltTimer_zero_over_zero_counterexample:
  "run bareActions initialState = Inr bareHasteState
   \<and> activeUltCooldown (enemies bareHasteState ! 0) = Some (Finite 0)
   \<and> startUltTimer 1000 0 bareHasteState =
       Inr \<lparr> enemies =
               bareSlot\<lparr>abilityHaste := Finite (- 100), ultEndTime := Some NaN\<rparr> # emptySlots \<rparr>
   \<and> NaN \<noteq> Finite 1000"
  by (simp add: bareActions_def initialState_def upt_rec setChampionData_def setAbilityHaste_def
      startUltTimer_def store_defs example_defs nullish_def round64_eval)

section \<open>Rehydration\<close>

lemma keepFuture_past: "js_le v (Finite now) \<Longrightarrow> keepFuture now (Some v) = None"
  by (cases v) (simp_all add: keepFuture_def js_gt_def)

lemma keepFuture_future:
  "0 \<le> now \<Longrightarrow> js_gt v (Finite now) \<Longrightarrow> keepFuture now (Some v) = Some v"
  by (cases v) (auto simp add: keepFuture_def js_gt_def truthy_def)

lemma useCountdown_None: "useCountdown None now = Finite 0"
  by (simp add: useCountdown_def)

lemma useCountdown_expired:
  assumes "js_le v (Finite now)"
  shows "useCountdown (Some v) now = Finite 0"
proof -
  from assms consider "v = NegInf" | r where "v = Finite r" "r \<le> now" by (cases v) auto
  then show ?thesis
  proof cases
    case 1
    then show ?thesis by (simp add: useCountdown_def js_sub_def)
  next
    case 2
    then have "r + - now \<le> 0" by simp
    then consider "round64 (r + - now) = NegInf"
      | s where "round64 (r + - now) = Finite s" "s \<le> 0"
      using round64_nonpos_cases by blast
    then show ?thesis
    proof cases
      case 1
      with 2 show ?thesis by (simp add: useCountdown_def js_sub_def)
    next
      case s: 2
      then have "s / 1000 \<le> 0" by simp
      then consider "round64 (s / 1000) = NegInf"
        | t where "round64 (s / 1000) = Finite t" "t \<le> 0"
        using round64_nonpos_cases by blast
      then show ?thesis
      proof cases
        case 1
        with 2 s show ?thesis by (simp add: useCountdown_def js_sub_def)
      next
        case t: 2
        then have "\<lceil>t\<rceil> \<le> 0" by (simp add: ceiling_le_iff)
        with 2 s t show ?thesis by (simp add: useCountdown_def js_sub_def)
      qed
    qed
  qed
qed

lemma js_le_later: "js_le v (Finite now) \<Longrightarrow> now \<le> now' \<Longrightarrow> js_le v (Finite now')"
  by (cases v) simp_all

text \<open>
  C2, as amended. At a load the store first holds the restored state as it was
  persisted, and the callback of \<open>onRehydrateStorage\<close> then replaces it by a second update.
  For every slot of the persisted state and each of its three end-times: a stored end-time
  at or before the clock of the load is replaced by \<^verbatim>\<open>null\<close> in that second state, and the
  remaining seconds read from it are \<open>0\<close>; in the first state the stored end-time is still
  there, and the remaining seconds read from it at the clock of the load or later are
  \<open>0\<close> too, never a negative number; a stored end-time after the clock of the load (a
  clock that is not negative, as milliseconds since the epoch are) is kept as it is.
\<close>

theorem rehydration_clears_expired_timers:
  assumes "j < length (enemies persisted)"
  shows "\<exists>restored final. rehydrate now persisted cur = [restored, final]
           \<and> enemies restored = enemies persisted
           \<and> length (enemies final) = length (enemies persisted)
           \<and> (\<forall>f \<in> {ultEndTime, spell1EndTime, spell2EndTime}.
                (\<forall>v. f (enemies persisted ! j) = Some v \<and> js_le v (Finite now) \<longrightarrow>
                       f (enemies final ! j) = None
                       \<and> useCountdown (f (enemies final ! j)) now' = Finite 0
                       \<and> (now \<le> now' \<longrightarrow> useCountdown (f (enemies restored ! j)) now' = Finite 0))
              \<and> (\<forall>v. f (enemies persisted ! j) = Some v \<and> js_gt v (Finite now) \<and> 0 \<le> now \<longrightarrow>
                       f (enemies final ! j) = Some v))"
proof -
  define restored where "restored = cur\<lparr>enemies := enemies persisted\<rparr>"
  define final where "final = onRehydrateStorage now (Some restored) False restored"
  have r: "rehydrate now persisted cur = [restored, final]"
    by (simp add: rehydrate_def restored_def final_def Let_def)
  have e: "enemies restored = enemies persisted" by (simp add: restored_def)
  have len: "length (enemies final) = length (enemies persisted)"
    by (simp add: final_def onRehydrateStorage_def e)
  have slot: "enemies final ! j =
      (enemies persisted ! j)
        \<lparr>ultEndTime := keepFuture now (ultEndTime (enemies persisted ! j)),
          spell1EndTime := keepFuture now (spell1EndTime (enemies persisted ! j)),
          spell2EndTime := keepFuture now (spell2EndTime (enemies persisted ! j))\<rparr>"
    using assms by (simp add: final_def onRehydrateStorage_def e)
  have "(\<forall>f \<in> {ultEndTime, spell1EndTime, spell2EndTime}.
                (\<forall>v. f (enemies persisted ! j) = Some v \<and> js_le v (Finite now) \<longrightarrow>
                       f (enemies final ! j) = None
                       \<and> useCountdown (f (enemies final ! j)) now' = Finite 0
                       \<and> (now \<le> now' \<longrightarrow> useCountdown (f (enemies restored ! j)) now' = Finite 0))
              \<and> (\<forall>v. f (enemies persisted ! j) = Some v \<and> js_gt v (Finite now) \<and> 0 \<le> now \<longrightarrow>
                       f (enemies final ! j) = Some v))"
    by (auto simp add: slot e keepFuture_past keepFuture_future useCountdown_None
        useCountdown_expired js_le_later)
  with r e len show ?thesis by blast
qed

theorem rehydration_clears_expired_timers_witness:
  "rehydrate 15000 persistedExample initialState =
     [persistedExample,
      \<lparr> enemies = luxSlot\<lparr>ultEndTime := Some (Finite 90000)\<rparr> # emptySlots \<rparr>]
   \<and> useCountdown (spell1EndTime (enemies persistedExample ! 0)) 15000 = Finite 0
   \<and> useCountdown None 15000 = Finite 0"
proof -
  have j: "0 < length (enemies persistedExample)" by (simp add: persistedExample_def)
  have s1: "spell1EndTime (enemies persistedExample ! 0) = Some (Finite 5000)"
    and u: "ultEndTime (enemies persistedExample ! 0) = Some (Finite 90000)"
    and s2: "spell2EndTime (enemies persistedExample ! 0) = None"
    by (simp_all add: persistedExample_def luxSlot_def createEmptyChampion_def)
  from rehydration_clears_expired_timers [OF j, of 15000 initialState 15000]
  obtain restored final :: TimerStoreState
    where e: "enemies restored = enemies persistedExample"
    and q: "\<forall>f \<in> {ultEndTime, spell1EndTime, spell2EndTime}.
                (\<forall>v. f (enemies persistedExample ! 0) = Some v \<and> js_le v (Finite 15000) \<longrightarrow>
                       f (enemies final ! 0) = None
                       \<and> useCountdown (f (enemies final ! 0)) 15000 = Finite 0
                       \<and> ((15000::real) \<le> 15000 \<longrightarrow>
                            useCountdown (f (enemies restored ! 0)) 15000 = Finite 0))
              \<and> (\<forall>v. f (enemies persistedExample ! 0) = Some v \<and> js_gt v (Finite 15000)
                      \<and> (0::real) \<le> 15000 \<longrightarrow> f (enemies final ! 0) = Some v)"
    by (elim exE conjE) (rule that, assumption+)
  from q have "\<forall>v. spell1EndTime (enemies persistedExample ! 0) = Some v \<and> js_le v (Finite 15000) \<longrightarrow>
                  useCountdown (spell1EndTime (enemies restored ! 0)) 15000 = Finite 0"
    by simp
  with s1 e have c: "useCountdown (spell1EndTime (enemies persistedExample ! 0)) 15000 = Finite 0"
    by simp
  have "rehydrate 15000 persistedExample initialState =
     [persistedExample,
      \<lparr> enemies = luxSlot\<lparr>ultEndTime := Some (Finite 90000)\<rparr> # emptySlots \<rparr>]"
    by (simp add: rehydrate_def onRehydrateStorage_def keepFuture_def truthy_def js_gt_def
        persistedExample_def luxSlot_def emptySlots_def createEmptyChampion_def initialState_def
        Let_def)
  with c show ?thesis by (simp add: useCountdown_None)
qed

text \<open>
  The load of \<open>persistedExample\<close> at clock 15000 ms: the first state of the store has the
  first spell timer of slot 0 ending at 5000 ms, ten seconds in the past; only the second
  state has it inactive.
\<close>

theorem rehydration_shows_stale_timer_counterexample:
  "spell1EndTime (enemies persistedExample ! 0) = Some (Finite 5000)
   \<and> js_le (Finite 5000) (Finite 15000)
   \<and> length (rehydrate 15000 persistedExample initialState) = 2
   \<and> spell1EndTime (enemies (rehydrate 15000 persistedExample initialState ! 0) ! 0)
       = Some (Finite 5000)
   \<and> spell1EndTime (enemies (rehydrate 15000 persistedExample initialState ! 0) ! 0) \<noteq> None
   \<and> spell1EndTime (enemies (rehydrate 15000 persistedExample initialState ! 1) ! 0) = None"
  by (simp add: rehydrate_def onRehydrateStorage_def keepFuture_def truthy_def js_gt_def
      persistedExample_def luxSlot_def emptySlots_def createEmptyChampion_def initialState_def
      Let_def)

section \<open>Starting a running timer\<close>

lemma startUltTimer_length:
  "startUltTimer now index st = Inr st' \<Longrightarrow> length (enemies st') = length (enemies st)"
  by (auto simp add: startUltTimer_def Let_def split: option.splits dest: setEnemies_length)

lemma startSpellTimer_length:
  "startSpellTimer now index slot st = Inr st' \<Longrightarrow> length (enemies st') = length (enemies st)"
  by (auto simp add: startSpellTimer_def Let_def split: option.splits if_splits
      dest: setEnemies_length)

lemma enemyAt_in:
  "0 \<le> index \<Longrightarrow> index \<le> 4 \<Longrightarrow> length (enemies st) = 5 \<Longrightarrow>
   enemyAt st index = Some (enemies st ! nat index)"
  by (simp add: enemyAt_def slotAt_def)

lemma handleUltPress_running:
  assumes "0 \<le> index" and "index \<le> 4" and "length (enemies st) = 5"
    and "ultEndTime (enemies st ! nat index) = Some e" and "js_gt e (Finite now)"
  shows "handleUltPress now now' index st = Inr st"
  using assms by (simp add: handleUltPress_def enemyAt_in running_def)

lemma handleSpell1Press_running:
  assumes "0 \<le> index" and "index \<le> 4" and "length (enemies st) = 5"
    and "spell1EndTime (enemies st ! nat index) = Some e" and "js_gt e (Finite now)"
  shows "handleSpell1Press now now' index st = Inr st"
  using assms by (simp add: handleSpell1Press_def enemyAt_in running_def)

lemma handleSpell2Press_running:
  assumes "0 \<le> index" and "index \<le> 4" and "length (enemies st) = 5"
    and "spell2EndTime (enemies st ! nat index) = Some e" and "js_gt e (Finite now)"
  shows "handleSpell2Press now now' index st = Inr st"
  using assms by (simp add: handleSpell2Press_def enemyAt_in running_def)

lemma handleUltPress_length:
  "handleUltPress now now' index st = Inr st' \<Longrightarrow> length (enemies st') = length (enemies st)"
  by (auto simp add: handleUltPress_def split: option.splits if_splits dest: startUltTimer_length)

lemma handleSpell1Press_length:
  "handleSpell1Press now now' index st = Inr st' \<Longrightarrow> length (enemies st') = length (enemies st)"
  by (auto simp add: handleSpell1Press_def split: option.splits if_splits
      dest: startSpellTimer_length)

lemma handleSpell2Press_length:
  "handleSpell2Press now now' index st = Inr st' \<Longrightarrow> length (enemies st') = length (enemies st)"
  by (auto simp add: handleSpell2Press_def split: option.splits if_splits
      dest: startSpellTimer_length)

lemma startUltTimer_sets:
  assumes "0 \<le> index" and "index \<le> 4" and "length (enemies st) = 5"
    and "activeUltCooldown (enemies st ! nat index) = Some a"
  shows "startUltTimer now index st =
           Inr (st\<lparr>enemies := (enemies st)[nat index :=
                  (enemies st ! nat index)
                    \<lparr>ultEndTime :=
                       Some (js_add (Finite now)
                               (js_mul (calculateCooldown a (abilityHaste (enemies st ! nat index)))
                                  (Finite 1000)))\<rparr>]\<rparr>)"
proof -
  from assms have lt: "nat index < length (enemies st)" by simp
  with assms show ?thesis
    by (simp add: startUltTimer_def validIndex_in slotAt_def updateSlot_in setEnemies_def)
qed

lemma startUltTimer_without_cooldown:
  assumes "0 \<le> index" and "index \<le> 4" and "length (enemies st) = 5"
    and "activeUltCooldown (enemies st ! nat index) = None"
  shows "startUltTimer now index st = Inr st"
proof -
  from assms have lt: "nat index < length (enemies st)" by simp
  with assms show ?thesis
    by (simp add: startUltTimer_def validIndex_in slotAt_def)
qed

lemma startSpellTimer_sets:
  assumes "0 \<le> index" and "index \<le> 4" and "length (enemies st) = 5"
  shows "\<not> js_le (spell1BaseCooldown (enemies st ! nat index)) (Finite 0) \<Longrightarrow>
         startSpellTimer now index Slot1 st =
           Inr (st\<lparr>enemies := (enemies st)[nat index :=
                  (enemies st ! nat index)
                    \<lparr>spell1EndTime :=
                       Some (js_add (Finite now)
                               (js_mul (calculateCooldown
                                          (spell1BaseCooldown (enemies st ! nat index))
                                          (summonerHaste (enemies st ! nat index)))
                                  (Finite 1000)))\<rparr>]\<rparr>)"
    and "\<not> js_le (spell2BaseCooldown (enemies st ! nat index)) (Finite 0) \<Longrightarrow>
         startSpellTimer now index Slot2 st =
           Inr (st\<lparr>enemies := (enemies st)[nat index :=
                  (enemies st ! nat index)
                    \<lparr>spell2EndTime :=
                       Some (js_add (Finite now)
                               (js_mul (calculateCooldown
                                          (spell2BaseCooldown (enemies st ! nat index))
                                          (summonerHaste (enemies st ! nat index)))
                                  (Finite 1000)))\<rparr>]\<rparr>)"
proof -
  from assms have lt: "nat index < length (enemies st)" by simp
  {
    assume "\<not> js_le (spell1BaseCooldown (enemies st ! nat index)) (Finite 0)"
    with assms lt show "startSpellTimer now index Slot1 st =
           Inr (st\<lparr>enemies := (enemies st)[nat index :=
                  (enemies st ! nat index)
                    \<lparr>spell1EndTime :=
                       Some (js_add (Finite now)
                               (js_mul (calculateCooldown
                                          (spell1BaseCooldown (enemies st ! nat index))
                                          (summonerHaste (enemies st ! nat index)))
                                  (Finite 1000)))\<rparr>]\<rparr>)"
      by (simp add: startSpellTimer_def validIndex_in slotAt_def updateSlot_in setEnemies_def
          Let_def)
  }
  {
    assume "\<not> js_le (spell2BaseCooldown (enemies st ! nat index)) (Finite 0)"
    with assms lt show "startSpellTimer now index Slot2 st =
           Inr (st\<lparr>enemies := (enemies st)[nat index :=
                  (enemies st ! nat index)
                    \<lparr>spell2EndTime :=
                       Some (js_add (Finite now)
                               (js_mul (calculateCooldown
                                          (spell2BaseCooldown (enemies st ! nat index))
                                          (summonerHaste (enemies st ! nat index)))
                                  (Finite 1000)))\<rparr>]\<rparr>)"
      by (simp add: startSpellTimer_def validIndex_in slotAt_def updateSlot_in setEnemies_def
          Let_def)
  }
qed

text \<open>
  C1, as amended. The guard against a second start is in the press handlers of the
  card, not in the store. For every valid index and every store of five slots: a press
  on an ability whose end-time is after the clock leaves the whole store unchanged, and
  so does a second press that comes while the timer started by the first is running.
  The store's own operations do not look at the end-time they replace: \<open>startUltTimer\<close>,
  on a slot with an active ultimate cooldown, and \<open>startSpellTimer\<close>, on a spell whose
  base cooldown is not zero or negative, set the end-time to the clock plus a thousand
  times the effective cooldown, whether or not a timer is running; on a slot without an
  active ultimate cooldown \<open>startUltTimer\<close> changes nothing.
\<close>

theorem press_while_running_is_noop:
  assumes "0 \<le> index" and "index \<le> 4" and "length (enemies st) = 5"
  shows "(\<forall>e. ultEndTime (enemies st ! nat index) = Some e \<and> js_gt e (Finite now) \<longrightarrow>
            handleUltPress now now' index st = Inr st)
       \<and> (\<forall>e. spell1EndTime (enemies st ! nat index) = Some e \<and> js_gt e (Finite now) \<longrightarrow>
            handleSpell1Press now now' index st = Inr st)
       \<and> (\<forall>e. spell2EndTime (enemies st ! nat index) = Some e \<and> js_gt e (Finite now) \<longrightarrow>
            handleSpell2Press now now' index st = Inr st)
       \<and> (\<forall>st1 e. handleUltPress t t' index st = Inr st1
              \<and> ultEndTime (enemies st1 ! nat index) = Some e \<and> js_gt e (Finite now) \<longrightarrow>
            handleUltPress now now' index st1 = Inr st1)
       \<and> (\<forall>st1 e. handleSpell1Press t t' index st = Inr st1
              \<and> spell1EndTime (enemies st1 ! nat index) = Some e \<and> js_gt e (Finite now) \<longrightarrow>
            handleSpell1Press now now' index st1 = Inr st1)
       \<and> (\<forall>st1 e. handleSpell2Press t t' index st = Inr st1
              \<and> spell2EndTime (enemies st1 ! nat index) = Some e \<and> js_gt e (Finite now) \<longrightarrow>
            handleSpell2Press now now' index st1 = Inr st1)
       \<and> (\<forall>a. activeUltCooldown (enemies st ! nat index) = Some a \<longrightarrow>
            startUltTimer now index st =
              Inr (st\<lparr>enemies := (enemies st)[nat index :=
                     (enemies st ! nat index)
                       \<lparr>ultEndTime :=
                          Some (js_add (Finite now)
                                  (js_mul (calculateCooldown a
                                             (abilityHaste (enemies st ! nat index)))
                                     (Finite 1000)))\<rparr>]\<rparr>))
       \<and> (activeUltCooldown (enemies st ! nat index) = None \<longrightarrow>
            startUltTimer now index st = Inr st)
       \<and> (\<not> js_le (spell1BaseCooldown (enemies st ! nat index)) (Finite 0) \<longrightarrow>
            startSpellTimer now index Slot1 st =
              Inr (st\<lparr>enemies := (enemies st)[nat index :=
                     (enemies st ! nat index)
                       \<lparr>spell1EndTime :=
                          Some (js_add (Finite now)
                                  (js_mul (calculateCooldown
                                             (spell1BaseCooldown (enemies st ! nat index))
                                             (summonerHaste (enemies st ! nat index)))
                                     (Finite 1000)))\<rparr>]\<rparr>))
       \<and> (\<not> js_le (spell2BaseCooldown (enemies st ! nat index)) (Finite 0) \<longrightarrow>
            startSpellTimer now index Slot2 st =
              Inr (st\<lparr>enemies := (enemies st)[nat index :=
                     (enemies st ! nat index)
                       \<lparr>spell2EndTime :=
                          Some (js_add (Finite now)
                                  (js_mul (calculateCooldown
                                             (spell2BaseCooldown (enemies st ! nat index))
                                             (summonerHaste (enemies st ! nat index)))
                                     (Finite 1000)))\<rparr>]\<rparr>))"
proof (intro conjI allI impI)
  fix e assume "ultEndTime (enemies st ! nat index) = Some e \<and> js_gt e (Finite now)"
  with assms show "handleUltPress now now' index st = Inr st"
    by (simp add: handleUltPress_running)
next
  fix e assume "spell1EndTime (enemies st ! nat index) = Some e \<and> js_gt e (Finite now)"
  with assms show "handleSpell1Press now now' index st = Inr st"
    by (simp add: handleSpell1Press_running)
next
  fix e assume "spell2EndTime (enemies st ! nat index) = Some e \<and> js_gt e (Finite now)"
  with assms show "handleSpell2Press now now' index st = Inr st"
    by (simp add: handleSpell2Press_running)
next
  fix st1 e
  assume h: "handleUltPress t t' index st = Inr st1
              \<and> ultEndTime (enemies st1 ! nat index) = Some e \<and> js_gt e (Finite now)"
  then have "length (enemies st1) = 5" using assms(3) by (auto dest: handleUltPress_length)
  with assms(1,2) h show "handleUltPress now now' index st1 = Inr st1"
    by (simp add: handleUltPress_running)
next
  fix st1 e
  assume h: "handleSpell1Press t t' index st = Inr st1
              \<and> spell1EndTime (enemies st1 ! nat index) = Some e \<and> js_gt e (Finite now)"
  then have "length (enemies st1) = 5" using assms(3) by (auto dest: handleSpell1Press_length)
  with assms(1,2) h show "handleSpell1Press now now' index st1 = Inr st1"
    by (simp add: handleSpell1Press_running)
next
  fix st1 e
  assume h: "handleSpell2Press t t' index st = Inr st1
              \<and> spell2EndTime (enemies st1 ! nat index) = Some e \<and> js_gt e (Finite now)"
  then have "length (enemies st1) = 5" using assms(3) by (auto dest: handleSpell2Press_length)
  with assms(1,2) h show "handleSpell2Press now now' index st1 = Inr st1"
    by (simp add: handleSpell2Press_running)
next
  fix a assume "activeUltCooldown (enemies st ! nat index) = Some a"
  with assms show "startUltTimer now index st =
              Inr (st\<lparr>enemies := (enemies st)[nat index :=
                     (enemies st ! nat index)
                       \<lparr>ultEndTime :=
                          Some (js_add (Finite now)
                                  (js_mul (calculateCooldown a
                                             (abilityHaste (enemies st ! nat index)))
                                     (Finite 1000)))\<rparr>]\<rparr>)"
    by (rule startUltTimer_sets)
next
  assume "activeUltCooldown (enemies st ! nat index) = None"
  with assms show "startUltTimer now index st = Inr st"
    by (rule startUltTimer_without_cooldown)
next
  assume "\<not> js_le (spell1BaseCooldown (enemies st ! nat index)) (Finite 0)"
  with assms show "startSpellTimer now index Slot1 st =
              Inr (st\<lparr>enemies := (enemies st)[nat index :=
                     (enemies st ! nat index)
                       \<lparr>spell1EndTime :=
                          Some (js_add (Finite now)
                                  (js_mul (calculateCooldown
                                             (spell1BaseCooldown (enemies st ! nat index))
                                             (summonerHaste (enemies st ! nat index)))
                                     (Finite 1000)))\<rparr>]\<rparr>)"
    by (rule startSpellTimer_sets(1))
next
  assume "\<not> js_le (spell2BaseCooldown (enemies st ! nat index)) (Finite 0)"
  with assms show "startSpellTimer now index Slot2 st =
              Inr (st\<lparr>enemies := (enemies st)[nat index :=
                     (enemies st ! nat index)
                       \<lparr>spell2EndTime :=
                          Some (js_add (Finite now)
                                  (js_mul (calculateCooldown
                                             (spell2BaseCooldown (enemies st ! nat index))
                                             (summonerHaste (enemies st ! nat index)))
                                     (Finite 1000)))\<rparr>]\<rparr>)"
    by (rule startSpellTimer_sets(2))
qed

theorem press_while_running_is_noop_witness:
  "handleUltPress 1000 1001 0 luxRunning = Inr luxRunning
   \<and> handleSpell1Press 1000 1001 0 luxSpellsRunning = Inr luxSpellsRunning
   \<and> handleSpell2Press 1000 1001 0 luxSpellsRunning = Inr luxSpellsRunning
   \<and> handleUltPress 0 0 0 luxState = Inr luxRunning
   \<and> startUltTimer 1000 0 luxRunning =
       Inr \<lparr> enemies = luxSlot\<lparr>ultEndTime := Some (Finite 81000)\<rparr> # emptySlots \<rparr>
   \<and> run [CycleLevel 0, CycleLevel 0, CycleLevel 0] luxRunning = Inr luxLevel1Running
   \<and> startUltTimer 1000 0 luxLevel1Running = Inr luxLevel1Running
   \<and> startSpellTimer 1000 0 Slot2 luxSpellsRunning =
       Inr \<lparr> enemies =
               luxSlot\<lparr>spell1EndTime := Some (Finite 300000),
                        spell2EndTime := Some (Finite 301000)\<rparr> # emptySlots \<rparr>"
proof -
  have l1: "length (enemies luxRunning) = 5" and l2: "length (enemies luxSpellsRunning) = 5"
    and l3: "length (enemies luxState) = 5" and l4: "length (enemies luxLevel1Running) = 5"
    by (simp_all add: luxRunning_def luxSpellsRunning_def luxState_def luxLevel1Running_def
        emptySlots_def)
  have u: "ultEndTime (enemies luxRunning ! nat 0) = Some (Finite 80000)"
    and s1: "spell1EndTime (enemies luxSpellsRunning ! nat 0) = Some (Finite 300000)"
    and s2: "spell2EndTime (enemies luxSpellsRunning ! nat 0) = Some (Finite 300000)"
    and a: "activeUltCooldown (enemies luxRunning ! nat 0) = Some (Finite 80)"
    and n: "activeUltCooldown (enemies luxLevel1Running ! nat 0) = None"
    and b: "\<not> js_le (spell2BaseCooldown (enemies luxSpellsRunning ! nat 0)) (Finite 0)"
    by (simp_all add: luxRunning_def luxSpellsRunning_def luxLevel1Running_def luxSlot_def
        createEmptyChampion_def)
  have first: "handleUltPress 0 0 0 luxState = Inr luxRunning"
    by (simp add: handleUltPress_def enemyAt_def running_def startUltTimer_def store_defs
        luxState_def luxRunning_def luxSlot_def createEmptyChampion_def round64_eval)
  have cycles: "run [CycleLevel 0, CycleLevel 0, CycleLevel 0] luxRunning = Inr luxLevel1Running"
    by (simp add: cycleLevel_def store_defs luxRunning_def luxLevel1Running_def luxSlot_def
        createEmptyChampion_def LEVEL_CYCLE_def deriveActiveUltCooldown_def)
  note t1 = press_while_running_is_noop [of 0 luxRunning 1000 1001, OF _ _ l1]
  note t2 = press_while_running_is_noop [of 0 luxSpellsRunning 1000 1001, OF _ _ l2]
  note t3 = press_while_running_is_noop [of 0 luxState 1000 1001 0 0, OF _ _ l3]
  note t4 = press_while_running_is_noop [of 0 luxLevel1Running 1000 1001, OF _ _ l4]
  from t1 u have p1: "handleUltPress 1000 1001 0 luxRunning = Inr luxRunning"
    by (simp add: js_gt_def)
  from t2 s1 s2 have p2: "handleSpell1Press 1000 1001 0 luxSpellsRunning = Inr luxSpellsRunning"
    and p3: "handleSpell2Press 1000 1001 0 luxSpellsRunning = Inr luxSpellsRunning"
    by (simp_all add: js_gt_def)
  from t3 first u have p4: "handleUltPress 1000 1001 0 luxRunning = Inr luxRunning"
    by (simp add: js_gt_def)
  from t1 a have p5: "startUltTimer 1000 0 luxRunning =
       Inr \<lparr> enemies = luxSlot\<lparr>ultEndTime := Some (Finite 81000)\<rparr> # emptySlots \<rparr>"
    by (simp add: luxRunning_def luxSlot_def createEmptyChampion_def calculateCooldown_def
        round64_eval)
  from t4 n have p6: "startUltTimer 1000 0 luxLevel1Running = Inr luxLevel1Running"
    by simp
  from t2 b have p7: "startSpellTimer 1000 0 Slot2 luxSpellsRunning =
       Inr \<lparr> enemies =
               luxSlot\<lparr>spell1EndTime := Some (Finite 300000),
                        spell2EndTime := Some (Finite 301000)\<rparr> # emptySlots \<rparr>"
    by (simp add: luxSpellsRunning_def luxSlot_def createEmptyChampion_def calculateCooldown_def
        round64_eval)
  from p1 p2 p3 p4 p5 p6 p7 first cycles show ?thesis by simp
qed

text \<open>
  The store's \<open>startUltTimer\<close> on a timer that runs until 80000 ms and its
  \<open>startSpellTimer\<close> on a timer that runs until 300000 ms, at clock 1000 ms: the end-times
  become 81000 ms and 301000 ms.
\<close>

theorem startUltTimer_restarts_running_timer_counterexample:
  "ultEndTime (enemies luxRunning ! 0) = Some (Finite 80000)
   \<and> js_gt (Finite 80000) (Finite 1000)
   \<and> startUltTimer 1000 0 luxRunning =
       Inr \<lparr> enemies = luxSlot\<lparr>ultEndTime := Some (Finite 81000)\<rparr> # emptySlots \<rparr>
   \<and> startUltTimer 1000 0 luxRunning \<noteq> Inr luxRunning
   \<and> spell1EndTime (enemies luxSpellsRunning ! 0) = Some (Finite 300000)
   \<and> js_gt (Finite 300000) (Finite 1000)
   \<and> startSpellTimer 1000 0 Slot1 luxSpellsRunning =
       Inr \<lparr> enemies =
               luxSlot\<lparr>spell1EndTime := Some (Finite 301000),
                        spell2EndTime := Some (Finite 300000)\<rparr> # emptySlots \<rparr>
   \<and> startSpellTimer 1000 0 Slot1 luxSpellsRunning \<noteq> Inr luxSpellsRunning"
  by (simp add: startUltTimer_def startSpellTimer_def store_defs luxRunning_def
      luxSpellsRunning_def luxSlot_def createEmptyChampion_def js_gt_def round64_eval)

end
